theory Spec2Isabelle
  imports Complex_Main "HOL-Library.Char_ord" "HOL-Library.List_Lexorder" "HOL-Library.Multiset"
begin

section \<open>The Sonic deployer: a shallow embedding of \<open>deploy.js\<close> and its token-only sibling\<close>

text \<open>
  The repository holds two versions of one interactive program, the class
  \<open>SonicDeployer\<close>: \<open>src/deploy.js\<close> (tokens and NFTs, the file the README runs)
  and \<open>src/unnamed/part_000\<close> (tokens only). The methods \<open>init\<close>,
  \<open>settingsMenu\<close>, \<open>generateReport\<close> and \<open>viewPreviousReports\<close> are the same
  text in both files and are modelled once. \<open>deployToken\<close>,
  \<open>performTokenInteraction\<close> and \<open>startDeployment\<close> differ: the definitions
  that follow \<open>deploy.js\<close> keep the source's names, those that follow
  \<open>part_000\<close> carry the suffix \<open>_p0\<close>.

  Conventions of the embedding.
  \<^item> A JavaScript string is a \<open>string\<close>; a character stands for one code unit
    below 256. The emoji that start some console messages and the colouring by
    \<open>chalk\<close> are left out of the message texts.
  \<^item> A number is a double. The whole numbers the program computes with (what
    \<open>parseInt\<close> reads, the loop counter, the delay) are rounded as the language
    rounds them, and so is the product with \<open>Math.random()\<close>.
  \<^item> A thrown exception is the left summand of a sum type, carrying the error.
  \<^item> The object's mutable fields are a record that every method takes and returns.
  \<^item> Everything outside the program (the chain client, \<open>Math.random\<close>, the
    clock, the file system, the operator) is an oracle of the record \<open>env\<close>,
    asked with the number of effects the run has had so far, so that two calls of
    one primitive may answer differently. Every awaited promise is taken to
    settle; what the run does after it settled is what the model computes.
  \<^item> A loop that need not end returns an \<open>option\<close>: \<open>None\<close> is a run that
    never leaves the loop.
\<close>

subsection \<open>Strings and numbers of the language\<close>

text \<open>
  The decimal digits of a whole number, which is how a template literal prints one
  that a double holds exactly (up to \<open>2^53\<close> in size).
\<close>

definition digit_char :: "nat \<Rightarrow> char" where
  "digit_char d = ''0123456789'' ! (d mod 10)"

fun show_nat :: "nat \<Rightarrow> string" where
  "show_nat n = (if n < 10 then [digit_char n] else show_nat (n div 10) @ [digit_char (n mod 10)])"

declare show_nat.simps [simp del]

definition show_int :: "int \<Rightarrow> string" where
  "show_int i = (if i < 0 then CHR ''-'' # show_nat (nat (- i)) else show_nat (nat i))"

text \<open>
  \<open>String.prototype.trim\<close> removes white space and line terminators at both
  ends. Of the code units below 256 these are tab, line feed, vertical tab, form
  feed, carriage return, space and the no-break space.
\<close>

definition is_space :: "char \<Rightarrow> bool" where
  "is_space c = ((of_char c :: nat) \<in> {9, 10, 11, 12, 13, 32, 160})"

definition trim :: "string \<Rightarrow> string" where
  "trim s = rev (dropWhile is_space (rev (dropWhile is_space s)))"

text \<open>\<open>String.prototype.split('\n')\<close>: the pieces between line feeds; one piece more than line feeds.\<close>

fun split_lines :: "string \<Rightarrow> string list" where
  "split_lines [] = [[]]"
| "split_lines (c # cs) =
     (if c = CHR 0x0A then [] # split_lines cs
      else (case split_lines cs of
              [] \<Rightarrow> [[c]]
            | l # ls \<Rightarrow> (c # l) # ls))"

subsection \<open>Numbers\<close>

text \<open>
  Rounding a whole number to the 53 significant bits of a double, ties to the even
  neighbour: \<open>bit_length n\<close> is the number of binary digits of \<open>n\<close>, and a
  number with more than 53 of them loses its last \<open>bit_length n - 53\<close>.
\<close>

fun bit_length :: "nat \<Rightarrow> nat" where
  "bit_length n = (if n = 0 then 0 else Suc (bit_length (n div 2)))"

declare bit_length.simps [simp del]

definition round53 :: "nat \<Rightarrow> nat" where
  "round53 n =
     (if n < 2 ^ 53 then n
      else (let e = bit_length n - 53;
                q = n div 2 ^ e;
                r = n mod 2 ^ e
            in if 2 ^ (e - 1) < r \<or> (r = 2 ^ (e - 1) \<and> odd q) then (q + 1) * 2 ^ e
               else q * 2 ^ e))"

text \<open>
  The numbers the program computes with are whole: a \<open>number\<close> is \<open>NaN\<close>, a
  whole double, or an infinity. The two zeros of the language are one here; the
  program cannot tell them apart (both are falsy and print as \<open>0\<close>).
  \<open>toNumber n\<close> is the double of the mathematical integer \<open>n\<close>: the nearest one,
  an infinity from \<open>2^1024\<close> on.
\<close>

datatype number = NaN | Finite int | Infinity | NegInfinity

definition toNumber :: "int \<Rightarrow> number" where
  "toNumber n =
     (let m = round53 (nat \<bar>n\<bar>) in
      if 2 ^ 1024 \<le> m then (if n < 0 then NegInfinity else Infinity)
      else Finite (if n < 0 then - int m else int m))"

text \<open>The operators \<open><\<close> and \<open><=\<close>; a comparison with \<open>NaN\<close> is false.\<close>

fun number_less :: "number \<Rightarrow> number \<Rightarrow> bool" where
  "number_less (Finite a) (Finite b) = (a < b)"
| "number_less (Finite a) Infinity = True"
| "number_less NegInfinity (Finite b) = True"
| "number_less NegInfinity Infinity = True"
| "number_less x y = False"

definition number_le :: "number \<Rightarrow> number \<Rightarrow> bool" where
  "number_le x y = (number_less x y \<or> (x = y \<and> x \<noteq> NaN))"

text \<open>\<open>i++\<close>, \<open>x - 1\<close> and the product \<open>x * k\<close> with a whole constant \<open>k\<close>.\<close>

fun increment :: "number \<Rightarrow> number" where
  "increment (Finite a) = toNumber (a + 1)"
| "increment x = x"

fun decrement :: "number \<Rightarrow> number" where
  "decrement (Finite a) = toNumber (a - 1)"
| "decrement x = x"

fun times_nat :: "number \<Rightarrow> nat \<Rightarrow> number" where
  "times_nat (Finite a) k = toNumber (a * int k)"
| "times_nat NaN k = NaN"
| "times_nat x k = (if k = 0 then NaN else x)"

text \<open>
  \<open>parseInt(text)\<close> with no radix: leading white space is skipped, one sign is
  read, a prefix \<open>0x\<close> or \<open>0X\<close> switches to radix 16, and the longest run of
  digits is the number, rounded to a double; no digit at all gives \<open>NaN\<close>. The
  digits are read exactly, which is what the engine of Node does; the language
  allows an implementation to read the decimal digits after the twentieth as zeros,
  which can only matter from \<open>10^20\<close> on.
\<close>

definition digit_val :: "nat \<Rightarrow> char \<Rightarrow> nat option" where
  "digit_val radix c =
     (let k = (of_char c :: nat);
          v = (if 48 \<le> k \<and> k \<le> 57 then Some (k - 48)
               else if 97 \<le> k \<and> k \<le> 122 then Some (k - 87)
               else if 65 \<le> k \<and> k \<le> 90 then Some (k - 55)
               else None)
      in case v of None \<Rightarrow> None | Some d \<Rightarrow> if d < radix then Some d else None)"

fun read_digits :: "nat \<Rightarrow> string \<Rightarrow> nat \<Rightarrow> nat" where
  "read_digits radix [] acc = acc"
| "read_digits radix (c # cs) acc =
     (case digit_val radix c of
        None \<Rightarrow> acc
      | Some d \<Rightarrow> read_digits radix cs (acc * radix + d))"

definition parse_radix :: "nat \<Rightarrow> string \<Rightarrow> nat option" where
  "parse_radix radix s =
     (case s of
        [] \<Rightarrow> None
      | c # cs \<Rightarrow> (case digit_val radix c of None \<Rightarrow> None | Some d \<Rightarrow> Some (read_digits radix s 0)))"

definition parse_unsigned :: "string \<Rightarrow> nat option" where
  "parse_unsigned s =
     (if take 2 s = ''0x'' \<or> take 2 s = ''0X'' then parse_radix 16 (drop 2 s)
      else parse_radix 10 s)"

text \<open>The mathematical integer that \<open>parseInt\<close> reads, \<open>None\<close> where there is no digit.\<close>

definition parse_integer :: "string \<Rightarrow> int option" where
  "parse_integer text =
     (let s = dropWhile is_space text in
      case s of
        [] \<Rightarrow> None
      | c # cs \<Rightarrow>
          if c = CHR ''-'' then map_option (\<lambda>n. - int n) (parse_unsigned cs)
          else if c = CHR ''+'' then map_option int (parse_unsigned cs)
          else map_option int (parse_unsigned s))"

definition parseInt :: "string \<Rightarrow> number" where
  "parseInt text = (case parse_integer text of None \<Rightarrow> NaN | Some n \<Rightarrow> toNumber n)"

text \<open>
  \<open>parseInt(text) || d\<close>: \<open>NaN\<close> and zero are falsy, every other number is
  truthy and kept.
\<close>

definition truthy :: "number \<Rightarrow> bool" where
  "truthy x = (x \<noteq> NaN \<and> x \<noteq> Finite 0)"

definition parseInt_or :: "string \<Rightarrow> number \<Rightarrow> number" where
  "parseInt_or text d = (if truthy (parseInt text) then parseInt text else d)"

subsection \<open>Settings and the settings menu\<close>

record settings =
  interactionCount :: number
  interactionInterval :: number

text \<open>The constructor's settings.\<close>

definition initial_settings :: settings where
  "initial_settings = \<lparr> interactionCount = Finite 3, interactionInterval = Finite 1 \<rparr>"

text \<open>
  \<open>settingsMenu\<close> loops on the operator's answers. The model runs it on the
  answers given so far, one per \<open>question\<close>, and returns the settings together
  with whether the menu has returned (choice \<open>4\<close>); with the answers used up
  the menu is waiting at a prompt. Choices 1 and 2 ask for the number and then for
  Enter; choice 3 prints and asks for Enter; any other choice asks again.
\<close>

fun settingsMenu :: "string list \<Rightarrow> settings \<Rightarrow> settings \<times> bool" where
  "settingsMenu [] s = (s, False)"
| "settingsMenu (choice # rest) s =
     (if choice = ''1'' then
        (case rest of
           [] \<Rightarrow> (s, False)
         | number # rest' \<Rightarrow>
             settingsMenu (drop 1 rest') (s\<lparr>interactionCount := parseInt_or number (Finite 3)\<rparr>))
      else if choice = ''2'' then
        (case rest of
           [] \<Rightarrow> (s, False)
         | minutes # rest' \<Rightarrow>
             settingsMenu (drop 1 rest') (s\<lparr>interactionInterval := parseInt_or minutes (Finite 1)\<rparr>))
      else if choice = ''3'' then settingsMenu (drop 1 rest) s
      else if choice = ''4'' then (s, True)
      else settingsMenu rest s)"

subsection \<open>Rounding: what the definitions below rest on\<close>

lemma bit_length_0 [simp]: "bit_length 0 = 0"
  by (simp add: bit_length.simps)

lemma bit_length_double: "0 < n \<Longrightarrow> bit_length (2 * n) = Suc (bit_length n)"
  by (subst bit_length.simps) simp

lemma bit_length_shift: "0 < n \<Longrightarrow> bit_length (n * 2 ^ s) = bit_length n + s"
proof (induction s)
  case 0
  then show ?case by simp
next
  case (Suc s)
  have e: "n * 2 ^ Suc s = 2 * (n * 2 ^ s)" by simp
  have "0 < n * 2 ^ s" using Suc.prems by simp
  then have "bit_length (2 * (n * 2 ^ s)) = Suc (bit_length (n * 2 ^ s))"
    by (rule bit_length_double)
  with Suc show ?case unfolding e by simp
qed

lemma bit_length_bounds: "0 < n \<Longrightarrow> 2 ^ (bit_length n - 1) \<le> n \<and> n < 2 ^ bit_length n"
proof (induction n rule: bit_length.induct)
  case (1 n)
  show ?case
  proof (cases "n div 2 = 0")
    case True
    with 1 have "n = 1" by presburger
    then show ?thesis by (simp add: bit_length.simps)
  next
    case False
    then have h: "0 < n div 2" by simp
    from 1 h have ih: "2 ^ (bit_length (n div 2) - 1) \<le> n div 2" "n div 2 < 2 ^ bit_length (n div 2)"
      by simp_all
    have pos: "0 < bit_length (n div 2)"
      using h by (subst bit_length.simps) simp
    have bl: "bit_length n = Suc (bit_length (n div 2))"
      using 1 by (subst bit_length.simps) simp
    have "2 ^ (bit_length n - 1) = 2 * 2 ^ (bit_length (n div 2) - 1)"
      using bl pos by (cases "bit_length (n div 2)") simp_all
    also have "\<dots> \<le> 2 * (n div 2)" using ih by simp
    also have "\<dots> \<le> n" by simp
    finally have lo: "2 ^ (bit_length n - 1) \<le> n" .
    have "n < 2 * (n div 2) + 2" by presburger
    also have "\<dots> \<le> 2 * 2 ^ bit_length (n div 2)" using ih by simp
    finally have "n < 2 ^ bit_length n" using bl by simp
    with lo show ?thesis by simp
  qed
qed

lemma bit_length_le: "n < 2 ^ k \<Longrightarrow> bit_length n \<le> k"
proof (cases "n = 0")
  case True
  then show ?thesis by simp
next
  case False
  assume a: "n < 2 ^ k"
  from False have "2 ^ (bit_length n - 1) \<le> n" using bit_length_bounds by simp
  from this a have "(2::nat) ^ (bit_length n - 1) < 2 ^ k" by (rule le_less_trans)
  then have "bit_length n - 1 < k" by (rule power_less_imp_less_exp [rotated]) simp
  then show ?thesis by simp
qed

lemma bit_length_gt: "2 ^ k \<le> n \<Longrightarrow> k < bit_length n"
proof -
  assume a: "2 ^ k \<le> n"
  then have "0 < n" by (metis gr0I not_less zero_less_numeral zero_less_power le_zero_eq)
  then have "n < 2 ^ bit_length n" using bit_length_bounds by simp
  with a have "(2::nat) ^ k < 2 ^ bit_length n" by (rule le_less_trans)
  then show ?thesis by (rule power_less_imp_less_exp [rotated]) simp
qed

lemma bit_length_eq: "2 ^ k \<le> n \<Longrightarrow> n < 2 ^ Suc k \<Longrightarrow> bit_length n = Suc k"
  using bit_length_le [of n "Suc k"] bit_length_gt [of k n] by simp

text \<open>Rounding commutes with scaling by a power of two, and keeps what has at most 53 bits.\<close>

lemma round53_shift: "round53 (n * 2 ^ s) = round53 n * 2 ^ s"
proof (cases "n < 2 ^ 53")
  case True
  show ?thesis
  proof (cases "n * 2 ^ s < 2 ^ 53")
    case True
    with \<open>n < 2 ^ 53\<close> show ?thesis by (simp add: round53_def)
  next
    case False
    then have pos: "0 < n" by (cases "n = 0") simp_all
    define e where "e = bit_length (n * 2 ^ s) - 53"
    have "bit_length n \<le> 53" using True by (rule bit_length_le)
    then have es: "e \<le> s" using pos by (simp add: e_def bit_length_shift)
    then obtain t where s: "s = e + t" using le_Suc_ex by blast
    have m: "n * 2 ^ s = (n * 2 ^ t) * 2 ^ e" by (simp add: s power_add)
    have r0: "(n * 2 ^ s) mod 2 ^ e = 0" by (simp add: m)
    have q: "(n * 2 ^ s) div 2 ^ e * 2 ^ e = n * 2 ^ s" by (simp add: m)
    show ?thesis
      using False True r0 q unfolding round53_def Let_def e_def [symmetric]
      by simp
  qed
next
  case False
  then have big: "2 ^ 53 \<le> n" by simp
  then have pos: "0 < n" by (simp add: less_le_trans [of 0 "2 ^ 53" n])
  have big': "\<not> n * 2 ^ s < 2 ^ 53"
  proof -
    have "n * 1 \<le> n * 2 ^ s" by (rule mult_le_mono2) simp
    then have "n \<le> n * 2 ^ s" by simp
    with big have "2 ^ 53 \<le> n * 2 ^ s" by (rule le_trans)
    then show ?thesis by simp
  qed
  define e where "e = bit_length n - 53"
  have "53 < bit_length n" using big by (rule bit_length_gt)
  then have e1: "1 \<le> e" and be: "bit_length n = e + 53" by (simp_all add: e_def)
  have e': "bit_length (n * 2 ^ s) - 53 = e + s"
    using pos be by (simp add: bit_length_shift)
  have q: "(n * 2 ^ s) div 2 ^ (e + s) = n div 2 ^ e"
    by (simp add: power_add)
  have r: "(n * 2 ^ s) mod 2 ^ (e + s) = (n mod 2 ^ e) * 2 ^ s"
    by (simp add: power_add)
  have h: "(2::nat) ^ (e + s - 1) = 2 ^ (e - 1) * 2 ^ s"
    using e1 by (simp add: power_add [symmetric])
  have c1: "(2::nat) ^ (e - 1) * 2 ^ s < (n mod 2 ^ e) * 2 ^ s \<longleftrightarrow> 2 ^ (e - 1) < n mod 2 ^ e"
    by simp
  have c2: "(n mod 2 ^ e) * 2 ^ s = (2::nat) ^ (e - 1) * 2 ^ s \<longleftrightarrow> n mod 2 ^ e = 2 ^ (e - 1)"
    by simp
  show ?thesis
    using False big'
    unfolding round53_def Let_def e' e_def [symmetric] q r h c1 c2
    by (simp add: power_add algebra_simps)
qed

lemma round53_exact: "n < 2 ^ 53 \<Longrightarrow> round53 (n * 2 ^ s) = n * 2 ^ s"
  by (simp add: round53_shift) (simp add: round53_def)

lemma round53_small: "n \<le> 2 ^ 53 \<Longrightarrow> round53 n = n"
proof (cases "n < 2 ^ 53")
  case True
  then show ?thesis by (simp add: round53_def)
next
  case False
  assume "n \<le> 2 ^ 53"
  with False have "n = 1 * 2 ^ 53" by simp
  then show ?thesis using round53_exact [of 1 53] by simp
qed

lemma toNumber_exact: "\<bar>n\<bar> \<le> 2 ^ 53 \<Longrightarrow> toNumber n = Finite n"
proof -
  assume a: "\<bar>n\<bar> \<le> 2 ^ 53"
  then have "nat \<bar>n\<bar> \<le> 2 ^ 53" by simp
  then have r: "round53 (nat \<bar>n\<bar>) = nat \<bar>n\<bar>" by (rule round53_small)
  have "(2::nat) ^ 53 < 2 ^ 1024" by simp
  with \<open>nat \<bar>n\<bar> \<le> 2 ^ 53\<close> have "\<not> 2 ^ 1024 \<le> nat \<bar>n\<bar>" by linarith
  with r show ?thesis by (auto simp: toNumber_def Let_def)
qed

lemma round53_lower: "0 < n \<Longrightarrow> 2 ^ (bit_length n - 1) \<le> round53 n"
proof (cases "n < 2 ^ 53")
  case True
  assume "0 < n"
  with True show ?thesis using bit_length_bounds [of n] by (simp add: round53_def)
next
  case False
  assume pos: "0 < n"
  define e where "e = bit_length n - 53"
  from False have "53 < bit_length n" by (intro bit_length_gt) simp
  then have be: "bit_length n - 1 = 52 + e" by (simp add: e_def)
  have "2 ^ (52 + e) \<le> n" using bit_length_bounds [OF pos] be by simp
  then have "2 ^ 52 * 2 ^ e \<le> n" by (simp add: power_add)
  then have "2 ^ 52 \<le> n div 2 ^ e" by (simp add: less_eq_div_iff_mult_less_eq)
  then have q: "2 ^ 52 * 2 ^ e \<le> n div 2 ^ e * 2 ^ e" by (rule mult_le_mono1)
  have "n div 2 ^ e * 2 ^ e \<le> round53 n"
    using False unfolding round53_def Let_def e_def [symmetric] by simp
  with q have "2 ^ 52 * 2 ^ e \<le> round53 n" by (rule le_trans)
  then show ?thesis unfolding be power_add .
qed

lemma round53_upper: "2 ^ 53 \<le> n \<Longrightarrow> round53 n \<le> n + 2 ^ (bit_length n - 54)"
proof -
  assume big: "2 ^ 53 \<le> n"
  define e where "e = bit_length n - 53"
  from big have "53 < bit_length n" by (rule bit_length_gt)
  then have e1: "e = Suc (bit_length n - 54)" by (simp add: e_def)
  define h :: nat where "h = 2 ^ (bit_length n - 54)"
  have he: "2 ^ e = 2 * h" and he1: "2 ^ (e - 1) = h" by (simp_all add: e1 h_def)
  have n: "n = n div (2 * h) * (2 * h) + n mod (2 * h)" by (rule div_mult_mod_eq [symmetric])
  have nb: "\<not> n < 2 ^ 53" using big by simp
  have r: "round53 n = (if h < n mod (2 * h) \<or> (n mod (2 * h) = h \<and> odd (n div (2 * h)))
      then (n div (2 * h) + 1) * (2 * h) else n div (2 * h) * (2 * h))"
    using nb unfolding round53_def Let_def e_def [symmetric] he he1 by simp
  show ?thesis
  proof (cases "h < n mod (2 * h) \<or> (n mod (2 * h) = h \<and> odd (n div (2 * h)))")
    case True
    then have "h \<le> n mod (2 * h)" by auto
    moreover have "round53 n = n div (2 * h) * (2 * h) + 2 * h" using r True by (simp add: algebra_simps)
    ultimately have "round53 n + n mod (2 * h) \<le> n div (2 * h) * (2 * h) + n mod (2 * h) + n mod (2 * h) + h"
      by linarith
    then have "round53 n \<le> n div (2 * h) * (2 * h) + n mod (2 * h) + h" by linarith
    then show ?thesis unfolding h_def [symmetric] using n by simp
  next
    case False
    then have "round53 n = n div (2 * h) * (2 * h)" using r by auto
    then have "round53 n \<le> n" by simp
    then show ?thesis by simp
  qed
qed

lemma toNumber_Infinity: "2 ^ 1024 \<le> n \<Longrightarrow> toNumber n = Infinity"
proof -
  assume a: "2 ^ 1024 \<le> n"
  have "(0::int) < 2 ^ 1024" by (rule zero_less_power) simp
  from this a have p: "0 < n" by (rule less_le_trans)
  then have ab: "\<bar>n\<bar> = n" by simp
  have "int (2 ^ 1024) \<le> \<bar>n\<bar>" unfolding ab of_nat_power using a by simp
  then have "2 ^ 1024 \<le> nat \<bar>n\<bar>" by (simp only: le_nat_iff abs_ge_zero)
  then have "1024 < bit_length (nat \<bar>n\<bar>)" by (rule bit_length_gt)
  then have "1024 \<le> bit_length (nat \<bar>n\<bar>) - 1" by simp
  then have "(2::nat) ^ 1024 \<le> 2 ^ (bit_length (nat \<bar>n\<bar>) - 1)"
    by (rule power_increasing) simp
  also have "\<dots> \<le> round53 (nat \<bar>n\<bar>)" using p by (intro round53_lower) simp
  finally have "2 ^ 1024 \<le> round53 (nat \<bar>n\<bar>)" .
  moreover have "\<not> n < 0" using p by simp
  ultimately show ?thesis unfolding toNumber_def Let_def by (simp only: if_True if_False)
qed

lemma toNumber_not_zero: "n \<noteq> 0 \<Longrightarrow> toNumber n \<noteq> Finite 0 \<and> toNumber n \<noteq> NaN"
proof -
  assume "n \<noteq> 0"
  then have p: "0 < nat \<bar>n\<bar>" by simp
  have "(1::nat) \<le> 2 ^ (bit_length (nat \<bar>n\<bar>) - 1)" by simp
  also have "\<dots> \<le> round53 (nat \<bar>n\<bar>)" using p by (rule round53_lower)
  finally have "0 < round53 (nat \<bar>n\<bar>)" by simp
  then show ?thesis by (auto simp: toNumber_def Let_def)
qed

subsection \<open>Values, errors and what a run does to the world\<close>

text \<open>
  An error object with its \<open>message\<close>; a file-system error also has a \<open>code\<close>
  (\<open>ENOENT\<close> for a missing file).
\<close>

datatype js_error =
    Error string
  | ReferenceError string
  | TypeError string
  | SystemError string string

fun message :: "js_error \<Rightarrow> string" where
  "message (Error m) = m"
| "message (ReferenceError m) = m"
| "message (TypeError m) = m"
| "message (SystemError c m) = m"

fun code :: "js_error \<Rightarrow> string option" where
  "code (SystemError c m) = Some c"
| "code e = None"

text \<open>What an interaction method resolves to: a string, or \<open>undefined\<close> when its \<open>switch\<close> matches no case.\<close>

datatype jsval = Undefined | Str string

fun render :: "jsval \<Rightarrow> string" where
  "render Undefined = ''undefined''"
| "render (Str s) = s"

text \<open>
  A public key is modelled by its base-58 text (\<open>toBase58\<close> and \<open>toString\<close> are
  the identity), a key pair by its secret and its public key.
\<close>

datatype keypair = Keypair (kp_secretKey: string) (kp_publicKey: string)

text \<open>The instructions the program puts into transactions, with the arguments it passes.\<close>

datatype instruction =
    CreateAccount string string nat int
  | InitializeMint string nat string string
  | CreateAssociatedTokenAccount string string string string
  | MintTo string string string nat
  | Transfer string string string nat
  | Burn string string string nat

text \<open>The NFT object the Metaplex client hands back, as far as the program reads it.\<close>

datatype nft = Nft (nft_address: string) (nft_metadataAddress: string) (nft_name: string)
  (nft_uri: string) (nft_sellerFeeBasisPoints: nat)

text \<open>
  The calls into the chain client and the SDKs. \<open>SendAndConfirmTransaction\<close>
  carries the instructions and the signers' public keys; \<open>NftsCreate\<close> the name, the
  collection (if given) and the payer; \<open>NftsTransfer\<close> the NFT, the old and the new
  owner; \<open>NftsUpdate\<close> the NFT and its new name.
\<close>

datatype call =
    GetBalance string
  | KeypairGenerate
  | GetMinimumBalanceForRentExemption nat
  | SendAndConfirmTransaction "instruction list" "string list"
  | GetAssociatedTokenAddress string string
  | GetAccount string
  | CreateMint string string string nat
  | GetOrCreateAssociatedTokenAccount string string string
  | NftsCreate string "string option" string
  | NftsTransfer string string string
  | NftsUpdate string string

text \<open>
  The effects of a run, in the order they happen. \<open>Perform i a x\<close> records that the
  orchestrator calls \<open>performTokenInteraction\<close> or \<open>performNFTInteraction\<close> for
  the wallet with index \<open>i\<close>, the asset at address \<open>a\<close> and the action \<open>x\<close>;
  \<open>SetTimeout ms\<close> is the awaited delay of \<open>ms\<close> milliseconds.
\<close>

datatype event =
    ClearScreen
  | Console string
  | SpinnerStart string
  | SpinnerSucceed string
  | SpinnerFail string
  | Question string
  | MathRandom
  | DateNow
  | Chain call
  | Perform nat string string
  | SetTimeout number
  | WriteFile string string
  | ReadDir
  | ReadFile string

text \<open>
  \<open>Math.random()\<close> returns a double \<open>r\<close> with \<open>0 \<le> r < 1\<close>. Every such double
  is a whole multiple of \<open>2^-1074\<close>, and the multiples that are doubles are those
  that rounding to 53 bits leaves alone: a \<open>fraction\<close> is the double
  \<open>units r / 2^1074\<close>.
\<close>

typedef fraction = "{m :: nat. m < 2 ^ 1074 \<and> round53 m = m}"
  morphisms units Fraction
  by (rule exI [of _ 0]) (simp add: round53_def)

setup_lifting type_definition_fraction

text \<open>The double \<open>k / 2^j\<close>, for \<open>k\<close> below \<open>2^j\<close> and below \<open>2^53\<close>.\<close>

lift_definition dyadic :: "nat \<Rightarrow> nat \<Rightarrow> fraction"
  is "\<lambda>k j. if j \<le> 1074 \<and> k < 2 ^ j \<and> k < 2 ^ 53 then k * 2 ^ (1074 - j) else 0"
proof -
  fix k j :: nat
  define c where "c \<longleftrightarrow> j \<le> 1074 \<and> k < 2 ^ j \<and> k < 2 ^ 53"
  have "(if c then k * 2 ^ (1074 - j) else 0) \<in> {m. m < 2 ^ 1074 \<and> round53 m = m}"
  proof (cases c)
    case False
    then show ?thesis by (simp add: round53_def)
  next
    case True
    then have j: "j \<le> 1074" and kj: "k < 2 ^ j" and k: "k < 2 ^ 53" by (simp_all add: c_def)
    from kj have "k * 2 ^ (1074 - j) < 2 ^ j * 2 ^ (1074 - j)" by simp
    also have "\<dots> = (2::nat) ^ 1074" using j by (simp only: power_add [symmetric] le_add_diff_inverse)
    finally have "k * 2 ^ (1074 - j) < 2 ^ 1074" .
    moreover have "round53 (k * 2 ^ (1074 - j)) = k * 2 ^ (1074 - j)"
      using k by (rule round53_exact)
    ultimately show ?thesis using True by (simp only: if_True mem_Collect_eq simp_thms)
  qed
  then show "(if j \<le> 1074 \<and> k < 2 ^ j \<and> k < 2 ^ 53 then k * 2 ^ (1074 - j) else 0) < 2 ^ 1074 \<and>
      round53 (if j \<le> 1074 \<and> k < 2 ^ j \<and> k < 2 ^ 53 then k * 2 ^ (1074 - j) else 0)
        = (if j \<le> 1074 \<and> k < 2 ^ j \<and> k < 2 ^ 53 then k * 2 ^ (1074 - j) else 0)"
    by (simp only: c_def mem_Collect_eq)
qed

text \<open>
  \<open>Math.floor(Math.random() * n)\<close> for a whole \<open>n\<close> below \<open>2^53\<close> (an array has
  fewer than \<open>2^32\<close> elements): the product is rounded to a double, then floored.
\<close>

definition floor_times :: "fraction \<Rightarrow> nat \<Rightarrow> nat" where
  "floor_times r n = round53 (units r * n) div 2 ^ 1074"

text \<open>
  The world outside the program. Every oracle that can answer differently from call
  to call takes the number of effects so far as its first argument; a chain
  primitive either throws (\<open>Inl\<close>) or returns (\<open>Inr\<close>). \<open>decodeKey\<close> is
  \<open>Keypair.fromSecretKey(bs58.decode(key))\<close>, \<open>None\<close> where it throws;
  \<open>toFixed4\<close> is \<open>(balance / 1e9).toFixed(4)\<close>; \<open>tableToString\<close> is the
  rendering of a \<open>cli-table3\<close> table from its head and rows; \<open>largeToString\<close>
  is the text of a whole number beyond \<open>2^53\<close>, which the language prints from
  the fewest digits that denote the same double (\<open>590295810358705700000\<close> for
  \<open>2^69\<close>), with an exponent from \<open>10^21\<close> on.
\<close>

record env =
  decodeKey :: "string \<Rightarrow> keypair option"
  mathRandom :: "nat \<Rightarrow> fraction"
  dateNow :: "nat \<Rightarrow> nat"
  getBalance :: "nat \<Rightarrow> string \<Rightarrow> js_error + int"
  keypairGenerate :: "nat \<Rightarrow> keypair"
  getMinimumBalanceForRentExemption :: "nat \<Rightarrow> nat \<Rightarrow> js_error + int"
  sendAndConfirmTransaction :: "nat \<Rightarrow> instruction list \<Rightarrow> string list \<Rightarrow> js_error + string"
  getAssociatedTokenAddress :: "nat \<Rightarrow> string \<Rightarrow> string \<Rightarrow> js_error + string"
  getAccount :: "nat \<Rightarrow> string \<Rightarrow> js_error + unit"
  createMint :: "nat \<Rightarrow> string \<Rightarrow> string \<Rightarrow> string \<Rightarrow> nat \<Rightarrow> js_error + string"
  getOrCreateAssociatedTokenAccount :: "nat \<Rightarrow> string \<Rightarrow> string \<Rightarrow> string \<Rightarrow> js_error + string"
  nftsCreate :: "nat \<Rightarrow> string \<Rightarrow> string option \<Rightarrow> string \<Rightarrow> js_error + nft"
  nftsTransfer :: "nat \<Rightarrow> string \<Rightarrow> string \<Rightarrow> string \<Rightarrow> js_error + unit"
  nftsUpdate :: "nat \<Rightarrow> string \<Rightarrow> string \<Rightarrow> js_error + unit"
  readFileSync :: "nat \<Rightarrow> string \<Rightarrow> js_error + string"
  writeFileSync :: "nat \<Rightarrow> string \<Rightarrow> string \<Rightarrow> js_error + unit"
  readdirSync :: "nat \<Rightarrow> js_error + string list"
  toFixed4 :: "int \<Rightarrow> string"
  toLocaleTimeString :: "nat \<Rightarrow> string"
  toISOString :: "nat \<Rightarrow> string"
  tableToString :: "string list \<Rightarrow> string list list \<Rightarrow> string"
  largeToString :: "int \<Rightarrow> string"

text \<open>
  A number in a template literal. Up to \<open>2^53\<close> in size a whole number prints as
  its decimal digits.
\<close>

definition numberToString :: "env \<Rightarrow> number \<Rightarrow> string" where
  "numberToString E x =
     (case x of
        NaN \<Rightarrow> ''NaN''
      | Finite n \<Rightarrow> if \<bar>n\<bar> \<le> 2 ^ 53 then show_int n else largeToString E n
      | Infinity \<Rightarrow> ''Infinity''
      | NegInfinity \<Rightarrow> ''-Infinity'')"

text \<open>
  An effectful computation takes the effects so far and returns its outcome, thrown
  or returned, with the effects extended.
\<close>

type_synonym 'a eff = "event list \<Rightarrow> (js_error + 'a) \<times> event list"

definition ret :: "'a \<Rightarrow> 'a eff" where
  "ret x t = (Inr x, t)"

definition throw :: "js_error \<Rightarrow> 'a eff" where
  "throw e t = (Inl e, t)"

definition andThen :: "'a eff \<Rightarrow> ('a \<Rightarrow> 'b eff) \<Rightarrow> 'b eff" where
  "andThen m f t = (case m t of (Inl e, t') \<Rightarrow> (Inl e, t') | (Inr x, t') \<Rightarrow> f x t')"

definition tryCatch :: "'a eff \<Rightarrow> (js_error \<Rightarrow> 'a eff) \<Rightarrow> 'a eff" where
  "tryCatch m h t = (case m t of (Inl e, t') \<Rightarrow> h e t' | (Inr x, t') \<Rightarrow> (Inr x, t'))"

definition emit :: "event \<Rightarrow> unit eff" where
  "emit e t = (Inr (), t @ [e])"

definition ask :: "event \<Rightarrow> (nat \<Rightarrow> js_error + 'a) \<Rightarrow> 'a eff" where
  "ask e oracle t = (oracle (length t), t @ [e])"

definition call_random :: "env \<Rightarrow> fraction eff" where
  "call_random E = ask MathRandom (\<lambda>n. Inr (mathRandom E n))"

definition call_now :: "env \<Rightarrow> nat eff" where
  "call_now E = ask DateNow (\<lambda>n. Inr (dateNow E n))"

definition call_getBalance :: "env \<Rightarrow> string \<Rightarrow> int eff" where
  "call_getBalance E pk = ask (Chain (GetBalance pk)) (\<lambda>n. getBalance E n pk)"

definition call_generate :: "env \<Rightarrow> keypair eff" where
  "call_generate E = ask (Chain KeypairGenerate) (\<lambda>n. Inr (keypairGenerate E n))"

definition call_getMinimumBalanceForRentExemption :: "env \<Rightarrow> nat \<Rightarrow> int eff" where
  "call_getMinimumBalanceForRentExemption E space =
     ask (Chain (GetMinimumBalanceForRentExemption space))
       (\<lambda>n. getMinimumBalanceForRentExemption E n space)"

definition call_sendAndConfirmTransaction :: "env \<Rightarrow> instruction list \<Rightarrow> keypair list \<Rightarrow> string eff" where
  "call_sendAndConfirmTransaction E tx signers =
     ask (Chain (SendAndConfirmTransaction tx (map kp_publicKey signers)))
       (\<lambda>n. sendAndConfirmTransaction E n tx (map kp_publicKey signers))"

definition call_getAssociatedTokenAddress :: "env \<Rightarrow> string \<Rightarrow> string \<Rightarrow> string eff" where
  "call_getAssociatedTokenAddress E m owner =
     ask (Chain (GetAssociatedTokenAddress m owner)) (\<lambda>n. getAssociatedTokenAddress E n m owner)"

definition call_getAccount :: "env \<Rightarrow> string \<Rightarrow> unit eff" where
  "call_getAccount E a = ask (Chain (GetAccount a)) (\<lambda>n. getAccount E n a)"

definition call_createMint :: "env \<Rightarrow> keypair \<Rightarrow> string \<Rightarrow> string \<Rightarrow> nat \<Rightarrow> string eff" where
  "call_createMint E payer authority freeze decimals =
     ask (Chain (CreateMint (kp_publicKey payer) authority freeze decimals))
       (\<lambda>n. createMint E n (kp_publicKey payer) authority freeze decimals)"

definition call_getOrCreateAssociatedTokenAccount :: "env \<Rightarrow> keypair \<Rightarrow> string \<Rightarrow> string \<Rightarrow> string eff" where
  "call_getOrCreateAssociatedTokenAccount E payer m owner =
     ask (Chain (GetOrCreateAssociatedTokenAccount (kp_publicKey payer) m owner))
       (\<lambda>n. getOrCreateAssociatedTokenAccount E n (kp_publicKey payer) m owner)"

definition call_nftsCreate :: "env \<Rightarrow> string \<Rightarrow> string option \<Rightarrow> keypair \<Rightarrow> nft eff" where
  "call_nftsCreate E nm collection payer =
     ask (Chain (NftsCreate nm collection (kp_publicKey payer)))
       (\<lambda>n. nftsCreate E n nm collection (kp_publicKey payer))"

definition call_nftsTransfer :: "env \<Rightarrow> string \<Rightarrow> string \<Rightarrow> string \<Rightarrow> unit eff" where
  "call_nftsTransfer E a fromOwner toOwner =
     ask (Chain (NftsTransfer a fromOwner toOwner)) (\<lambda>n. nftsTransfer E n a fromOwner toOwner)"

definition call_nftsUpdate :: "env \<Rightarrow> string \<Rightarrow> string \<Rightarrow> unit eff" where
  "call_nftsUpdate E a nm = ask (Chain (NftsUpdate a nm)) (\<lambda>n. nftsUpdate E n a nm)"

subsection \<open>Wallets and the deployer object\<close>

record token_info =
  mint :: string
  account :: string

record wallet =
  index :: nat
  keypair :: keypair
  publicKey :: string
  tokenAccounts :: "string \<rightharpoonup> token_info"
  nftAccounts :: "string \<rightharpoonup> nft"

text \<open>What \<open>deployToken\<close> and \<open>deployNFT\<close> return.\<close>

datatype asset =
    TokenData (address: string) (tokenAccount: string)
  | NftData (address: string) (metadata: string)

text \<open>The entries of \<open>this.deployments\<close> and \<open>this.interactions\<close>; a timestamp is in milliseconds.\<close>

datatype deployment =
  Deployment (d_timestamp: nat) (d_walletIndex: nat) (d_type: string) (d_address: string)

datatype interaction =
  Interaction (i_timestamp: nat) (i_walletIndex: nat) (i_type: string) (i_action: string)
    (i_result: jsval)

text \<open>
  The fields of a \<open>SonicDeployer\<close>, and the effects of the run so far. Before
  \<open>init\<close> the field \<open>wallets\<close> is not set; the model starts it empty.
\<close>

record deployer =
  wallets :: "wallet list"
  deployments :: "deployment list"
  interactions :: "interaction list"
  settings :: settings
  trace :: "event list"

definition new_SonicDeployer :: deployer where
  "new_SonicDeployer =
     \<lparr> wallets = [], deployments = [], interactions = [], settings = initial_settings, trace = [] \<rparr>"

definition log :: "event \<Rightarrow> deployer \<Rightarrow> deployer" where
  "log e d = d\<lparr>trace := trace d @ [e]\<rparr>"

definition logs :: "event list \<Rightarrow> deployer \<Rightarrow> deployer" where
  "logs es d = d\<lparr>trace := trace d @ es\<rparr>"

definition run :: "'a eff \<Rightarrow> deployer \<Rightarrow> (js_error + 'a) \<times> deployer" where
  "run m d = (case m (trace d) of (r, t) \<Rightarrow> (r, d\<lparr>trace := t\<rparr>))"

text \<open>\<open>Math.random()\<close> and the clock (\<open>new Date()\<close>, \<open>Date.now()\<close>) in a method of the object.\<close>

definition draw :: "env \<Rightarrow> deployer \<Rightarrow> fraction \<times> deployer" where
  "draw E d = (mathRandom E (length (trace d)), log MathRandom d)"

definition clock :: "env \<Rightarrow> deployer \<Rightarrow> nat \<times> deployer" where
  "clock E d = (dateNow E (length (trace d)), log DateNow d)"

subsection \<open>\<open>init\<close>: loading the wallets\<close>

definition PRIVATE_KEYS_FILE :: string where
  "PRIVATE_KEYS_FILE = ''private-sonic.txt''"

text \<open>The lines of the key file, trimmed, without the empty ones.\<close>

definition privateKeys :: "string \<Rightarrow> string list" where
  "privateKeys content = filter (\<lambda>key. 0 < length key) (map trim (split_lines content))"

text \<open>
  The callback of \<open>privateKeys.map\<close>, run over the keys from position \<open>i\<close> on: a
  wallet with index \<open>i + 1\<close> for a key that decodes, \<open>null\<close> and a console line
  for one that does not.
\<close>

fun mapKeys :: "env \<Rightarrow> nat \<Rightarrow> string list \<Rightarrow> event list \<Rightarrow> wallet option list \<times> event list" where
  "mapKeys E i [] t = ([], t)"
| "mapKeys E i (key # keys) t =
     (case decodeKey E key of
        Some kp \<Rightarrow>
          (case mapKeys E (i + 1) keys t of
             (ws, t') \<Rightarrow>
               (Some \<lparr> index = i + 1, keypair = kp, publicKey = kp_publicKey kp,
                       tokenAccounts = Map.empty, nftAccounts = Map.empty \<rparr> # ws, t'))
      | None \<Rightarrow>
          (case mapKeys E (i + 1) keys (t @ [Console (''Error processing key '' @ show_nat (i + 1))]) of
             (ws, t') \<Rightarrow> (None # ws, t')))"

text \<open>\<open>.filter(wallet => wallet !== null)\<close>\<close>

fun notNull :: "'a option list \<Rightarrow> 'a list" where
  "notNull [] = []"
| "notNull (None # xs) = notNull xs"
| "notNull (Some x # xs) = x # notNull xs"

definition init :: "env \<Rightarrow> deployer \<Rightarrow> bool \<times> deployer" where
  "init E d =
     (case run (ask (ReadFile PRIVATE_KEYS_FILE) (\<lambda>n. readFileSync E n PRIVATE_KEYS_FILE))
             (log ClearScreen d) of
        (Inl error, d1) \<Rightarrow>
          (False,
           if code error = Some ''ENOENT''
           then logs [Console (PRIVATE_KEYS_FILE @ '' not found.''),
                      Console ''Create a file with one private key per line''] d1
           else log (Console (''Error: '' @ message error)) d1)
      | (Inr content, d1) \<Rightarrow>
          (case mapKeys E 0 (privateKeys content) (trace d1) of
             (made, t2) \<Rightarrow>
               (let d2 = d1\<lparr>wallets := notNull made, trace := t2\<rparr> in
                if length (wallets d2) = 0
                then (False, log (Console (''Error: '' @ ''No valid wallets found'')) d2)
                else (True, log (Console (''Loaded '' @ show_nat (length (wallets d2))
                                          @ '' wallets successfully'')) d2))))"

subsection \<open>\<open>generateReport\<close> and \<open>viewPreviousReports\<close>\<close>

definition reportName :: "nat \<Rightarrow> string" where
  "reportName now = ''sonic-report-'' @ show_nat now @ ''.txt''"

definition deployRow :: "env \<Rightarrow> deployment \<Rightarrow> string list" where
  "deployRow E x =
     [toLocaleTimeString E (d_timestamp x), ''#'' @ show_nat (d_walletIndex x), d_type x,
      take 16 (d_address x) @ ''...'']"

definition interactionRow :: "env \<Rightarrow> interaction \<Rightarrow> string list" where
  "interactionRow E i =
     [toLocaleTimeString E (i_timestamp i), ''#'' @ show_nat (i_walletIndex i), i_type i,
      i_action i, render (i_result i)]"

definition reportText :: "env \<Rightarrow> deployer \<Rightarrow> nat \<Rightarrow> string" where
  "reportText E d now =
     [CHR 0x0A] @ ''=== ONIXIA Sonic Deployment Report ==='' @ [CHR 0x0A, CHR 0x0A]
     @ ''Deployments:'' @ [CHR 0x0A]
     @ tableToString E [''Time'', ''Wallet #'', ''Type'', ''Address'']
         (map (deployRow E) (deployments d))
     @ [CHR 0x0A, CHR 0x0A] @ ''Interactions:'' @ [CHR 0x0A]
     @ tableToString E [''Time'', ''Wallet #'', ''Type'', ''Action'', ''Result'']
         (map (interactionRow E) (interactions d))
     @ [CHR 0x0A, CHR 0x0A] @ ''Generated at: '' @ toISOString E now @ [CHR 0x0A]"

text \<open>
  The clock is read twice: for the line \<open>Generated at\<close> and, by \<open>Date.now()\<close>, for
  the file name. \<open>writeFileSync\<close> creates the file or overwrites the one of that name.
\<close>

definition generateReport :: "env \<Rightarrow> deployer \<Rightarrow> (js_error + string) \<times> deployer" where
  "generateReport E d =
     (case clock E d of
        (generated, d1) \<Rightarrow>
          (let report = reportText E d generated in
           case clock E d1 of
             (now, d2) \<Rightarrow>
               (let filename = reportName now in
                case run (ask (WriteFile filename report) (\<lambda>n. writeFileSync E n filename report)) d2 of
                  (Inl error, d3) \<Rightarrow> (Inl error, d3)
                | (Inr u, d3) \<Rightarrow> (Inr report, log (Console (''Report saved to '' @ filename)) d3))))"

text \<open>
  The list \<open>reports\<close> of \<open>viewPreviousReports\<close>: the directory entries that start
  with \<open>sonic-report-\<close>, sorted as strings (by code unit, which is the default order
  of \<open>Array.prototype.sort\<close>) and reversed.
\<close>

definition startsWith :: "string \<Rightarrow> string \<Rightarrow> bool" where
  "startsWith s p = (take (length p) s = p)"

definition listReports :: "string list \<Rightarrow> string list" where
  "listReports files = rev (sort (filter (\<lambda>file. startsWith file ''sonic-report-'') files))"

text \<open>
  \<open>reports[parseInt(choice) - 1]\<close>, \<open>None\<close> for \<open>undefined\<close>: the element at a
  whole index inside the array, and nothing at any other number.
\<close>

definition selectedReport :: "string list \<Rightarrow> string \<Rightarrow> string option" where
  "selectedReport reports choice =
     (case decrement (parseInt choice) of
        Finite n \<Rightarrow> if 0 \<le> n \<and> n < int (length reports) then Some (reports ! nat n) else None
      | x \<Rightarrow> None)"

fun numbered :: "nat \<Rightarrow> string list \<Rightarrow> event list" where
  "numbered i [] = []"
| "numbered i (report # reports) =
     Console (show_nat (i + 1) @ ''. '' @ report) # numbered (i + 1) reports"

definition viewPreviousReports :: "env \<Rightarrow> string \<Rightarrow> deployer \<Rightarrow> (js_error + unit) \<times> deployer" where
  "viewPreviousReports E choice d =
     (case run (ask ReadDir (readdirSync E)) (log ClearScreen d) of
        (Inl error, d1) \<Rightarrow> (Inl error, d1)
      | (Inr files, d1) \<Rightarrow>
          (let reports = listReports files in
           if length reports = 0
           then (Inr (), logs [Console ''No previous reports found'',
                               Question ''Press Enter to return to main menu...''] d1)
           else
             (let d2 = logs (Console ''Previous Reports'' # numbered 0 reports
                              @ [Question ''Select report number (or Enter to return): '']) d1 in
              if choice = [] then (Inr (), d2)
              else
                (case selectedReport reports choice of
                   None \<Rightarrow> (Inr (), d2)
                 | Some name \<Rightarrow>
                     if name = [] then (Inr (), d2)
                     else
                       (case run (ask (ReadFile name) (\<lambda>n. readFileSync E n name)) (log ClearScreen d2) of
                          (Inl error, d3) \<Rightarrow> (Inl error, d3)
                        | (Inr content, d3) \<Rightarrow>
                            (Inr (), logs [Console content,
                                           Question ''Press Enter to return to main menu...''] d3))))))"

text \<open>Effects and clock readings leave the other fields of the object alone.\<close>

lemma settings_log [simp]: "settings (log e d) = settings d"
  by (simp add: log_def)

lemma wallets_log [simp]: "wallets (log e d) = wallets d"
  by (simp add: log_def)

lemma deployments_log [simp]: "deployments (log e d) = deployments d"
  by (simp add: log_def)

lemma interactions_log [simp]: "interactions (log e d) = interactions d"
  by (simp add: log_def)

lemma trace_log [simp]: "trace (log e d) = trace d @ [e]"
  by (simp add: log_def)

lemma deployments_logs [simp]: "deployments (logs es d) = deployments d"
  by (simp add: logs_def)

lemma interactions_logs [simp]: "interactions (logs es d) = interactions d"
  by (simp add: logs_def)

lemma trace_logs [simp]: "trace (logs es d) = trace d @ es"
  by (simp add: logs_def)

lemma settings_logs [simp]: "settings (logs es d) = settings d"
  by (simp add: logs_def)

lemma wallets_logs [simp]: "wallets (logs es d) = wallets d"
  by (simp add: logs_def)

lemma run_frame:
  "run m d = (r, d') \<Longrightarrow>
   settings d' = settings d \<and> wallets d' = wallets d \<and>
   deployments d' = deployments d \<and> interactions d' = interactions d"
  by (auto simp: run_def split: prod.splits)

lemma draw_frame:
  "draw E d = (r, d') \<Longrightarrow>
   settings d' = settings d \<and> wallets d' = wallets d \<and>
   deployments d' = deployments d \<and> interactions d' = interactions d"
  by (auto simp: draw_def log_def)

lemma clock_frame:
  "clock E d = (r, d') \<Longrightarrow>
   settings d' = settings d \<and> wallets d' = wallets d \<and>
   deployments d' = deployments d \<and> interactions d' = interactions d"
  by (auto simp: clock_def log_def)

subsection \<open>The token-only program (\<open>src/unnamed/part_000\<close>)\<close>

definition TOKEN_INTERACTIONS :: "string list" where
  "TOKEN_INTERACTIONS = [''mint'', ''transfer'', ''burn'']"


text \<open>
  \<open>this.wallets[Math.floor(Math.random() * this.wallets.length)]\<close>: \<open>None\<close> is
  \<open>undefined\<close>, which an empty list gives.
\<close>

definition randomWalletOf :: "wallet list \<Rightarrow> fraction \<Rightarrow> wallet option" where
  "randomWalletOf ws r =
     (if floor_times r (length ws) < length ws then Some (ws ! floor_times r (length ws)) else None)"

text \<open>Reading \<open>publicKey\<close> of \<open>undefined\<close>, with the message of the engine of Node.\<close>

definition undefined_publicKey :: js_error where
  "undefined_publicKey =
     TypeError (''Cannot read properties of undefined (reading '' @ [CHR 0x27] @ ''publicKey''
                @ [CHR 0x27] @ '')'')"

text \<open>
  \<open>performTokenInteraction(wallet, tokenData, action)\<close>; \<open>ws\<close> is \<open>this.wallets\<close>.
  Each case wraps whatever is thrown inside it.
\<close>

definition performTokenInteraction_p0 ::
  "env \<Rightarrow> wallet list \<Rightarrow> wallet \<Rightarrow> asset \<Rightarrow> string \<Rightarrow> string eff" where
  "performTokenInteraction_p0 E ws w tokenData action =
     (case tokenAccounts w (address tokenData) of
        None \<Rightarrow> throw (Error ''Token not found'')
      | Some tokenInfo \<Rightarrow>
          (let tokenMint = mint tokenInfo; tokenAccount = account tokenInfo in
           if action = ''mint'' then
             tryCatch
               (andThen (call_random E) (\<lambda>r.
                let amount = floor_times r 1000 + 1 in
                andThen (call_sendAndConfirmTransaction E
                           [MintTo tokenMint tokenAccount (publicKey w) amount] [keypair w]) (\<lambda>sig.
                ret (''Minted '' @ show_nat amount @ '' tokens''))))
               (\<lambda>error. throw (Error (''Mint failed: '' @ message error)))
           else if action = ''transfer'' then
             tryCatch
               (andThen (call_random E) (\<lambda>r.
                let amount = floor_times r 100 + 1 in
                andThen (call_random E) (\<lambda>r'.
                case randomWalletOf ws r' of
                  None \<Rightarrow> throw undefined_publicKey
                | Some randomWallet \<Rightarrow>
                    andThen (call_getAssociatedTokenAddress E tokenMint (publicKey randomWallet)) (\<lambda>destinationATA.
                    andThen (tryCatch
                               (andThen (call_getAccount E destinationATA) (\<lambda>u. ret ()))
                               (\<lambda>error.
                                  andThen (call_sendAndConfirmTransaction E
                                             [CreateAssociatedTokenAccount (publicKey w) destinationATA
                                                (publicKey randomWallet) tokenMint]
                                             [keypair w]) (\<lambda>sig. ret ()))) (\<lambda>u.
                    andThen (call_sendAndConfirmTransaction E
                               [Transfer tokenAccount destinationATA (publicKey w) amount]
                               [keypair w]) (\<lambda>sig.
                    ret (''Transferred '' @ show_nat amount @ '' tokens to wallet #''
                         @ show_nat (index randomWallet))))))))
               (\<lambda>error. throw (Error (''Transfer failed: '' @ message error)))
           else if action = ''burn'' then
             tryCatch
               (andThen (call_random E) (\<lambda>r.
                let amount = floor_times r 50 + 1 in
                andThen (call_sendAndConfirmTransaction E
                           [Burn tokenAccount tokenMint (publicKey w) amount] [keypair w]) (\<lambda>sig.
                ret (''Burned '' @ show_nat amount @ '' tokens''))))
               (\<lambda>error. throw (Error (''Burn failed: '' @ message error)))
           else throw (Error (''Unknown action: '' @ action))))"

text \<open>
  The body of the interaction loop of \<open>startDeployment\<close> at iteration \<open>i\<close>, for
  the wallet \<open>w\<close> and the asset \<open>result\<close> just deployed. The index drawn for the
  action is below the length of \<open>TOKEN_INTERACTIONS\<close>, whatever \<open>Math.random\<close>
  returns. The delay stands inside the \<open>try\<close> block, after the entry is pushed.
\<close>

definition interactionStep_p0 :: "env \<Rightarrow> wallet \<Rightarrow> asset \<Rightarrow> number \<Rightarrow> deployer \<Rightarrow> deployer" where
  "interactionStep_p0 E w result i d =
     (case draw E d of
        (r, d1) \<Rightarrow>
          (let action = TOKEN_INTERACTIONS ! floor_times r (length TOKEN_INTERACTIONS);
               d2 = log (SpinnerStart (''Interaction '' @ numberToString E i @ ''/''
                           @ numberToString E (interactionCount (settings d1)) @ '': '' @ action)) d1;
               d3 = log (Perform (index w) (address result) action) d2
           in case run (performTokenInteraction_p0 E (wallets d3) w result action) d3 of
                (Inr interactionResult, d4) \<Rightarrow>
                  (case clock E (log (SpinnerSucceed interactionResult) d4) of
                     (now, d5) \<Rightarrow>
                       (let d6 = d5\<lparr>interactions := interactions d5 @
                                   [Interaction now (index w) ''Token'' action (Str interactionResult)]\<rparr>
                        in if number_less i (interactionCount (settings d6))
                           then log (SetTimeout (times_nat (times_nat (interactionInterval (settings d6)) 60) 1000)) d6
                           else d6))
              | (Inl error, d4) \<Rightarrow>
                  log (SpinnerFail (''Interaction failed: '' @ message error)) d4))"

lemma interactionStep_p0_frame:
  "settings (interactionStep_p0 E w result i d) = settings d \<and>
   wallets (interactionStep_p0 E w result i d) = wallets d \<and>
   deployments (interactionStep_p0 E w result i d) = deployments d"
  by (auto simp: interactionStep_p0_def Let_def split: prod.splits sum.splits
           dest!: run_frame draw_frame clock_frame)

text \<open>
  \<open>for (let i = 1; i <= this.settings.interactionCount; i++)\<close>, from \<open>i\<close> on. The
  counter is a double: it stops growing at \<open>2^53\<close>, so the loop never ends for a
  count from there on, nor for \<open>Infinity\<close>.
\<close>

partial_function (option) interactionLoop_p0 ::
  "env \<Rightarrow> wallet \<Rightarrow> asset \<Rightarrow> number \<Rightarrow> deployer \<Rightarrow> deployer option" where
  "interactionLoop_p0 E w result i d =
     (if number_le i (interactionCount (settings d))
      then interactionLoop_p0 E w result (increment i) (interactionStep_p0 E w result i d)
      else Some d)"


text \<open>The handler of the \<open>try\<close> block around one wallet.\<close>

definition catchWallet :: "js_error \<Rightarrow> deployer \<Rightarrow> deployer" where
  "catchWallet error d =
     logs [Console (''Error processing wallet: '' @ message error),
           Question ''Press Enter to continue with next wallet...''] d"







text \<open>
  \<open>String.prototype.toLowerCase\<close> on the letters A to Z; other characters are left
  as they are here, which no comparison with \<open>m\<close> or \<open>r\<close> can tell.
\<close>

definition toLowerCase :: "string \<Rightarrow> string" where
  "toLowerCase s =
     map (\<lambda>c. if 65 \<le> (of_char c :: nat) \<and> (of_char c :: nat) \<le> 90
              then char_of ((of_char c :: nat) + 32) else c) s"

text \<open>
  What follows the wallets: the report, and the loop that asks for \<open>M\<close> or \<open>R\<close>,
  run on the operator's answers given so far. A failing \<open>writeFileSync\<close> lands in
  the outer handler.
\<close>

definition catchRun :: "js_error \<Rightarrow> deployer \<Rightarrow> deployer" where
  "catchRun error d =
     logs [Console (''An error occurred: '' @ message error),
           Question ''Press Enter to return to main menu...''] d"

fun reportPrompt :: "env \<Rightarrow> string list \<Rightarrow> deployer \<Rightarrow> deployer" where
  "reportPrompt E [] d = log (Question ''Press M to return to main menu, R to regenerate report: '') d"
| "reportPrompt E (answer # answers) d =
     (let d1 = log (Question ''Press M to return to main menu, R to regenerate report: '') d in
      if toLowerCase answer = ''m'' then d1
      else if toLowerCase answer = ''r'' then
        (case generateReport E (log ClearScreen d1) of
           (Inl error, d2) \<Rightarrow> catchRun error d2
         | (Inr report, d2) \<Rightarrow> reportPrompt E answers (log (Console report) d2))
      else reportPrompt E answers d1)"


subsection \<open>The token and NFT program (\<open>src/deploy.js\<close>)\<close>

definition NFT_INTERACTIONS :: "string list" where
  "NFT_INTERACTIONS = [''mint'', ''transfer'', ''update'']"



text \<open>
  The class body of \<open>deploy.js\<close> defines \<open>performTokenInteraction\<close> twice (lines
  152 and 237); the prototype keeps the second, which is modelled here. It calls
  \<open>mintTo\<close>, \<open>getOrCreateAssociatedTokenAccount\<close>, \<open>transfer\<close> and \<open>burn\<close> by
  their bare names, but the module imports the token library only as the namespace
  \<open>splToken\<close> and declares none of these names: evaluating the callee throws a
  \<open>ReferenceError\<close> before any argument is evaluated. The amounts and the random
  wallet are drawn before that. The \<open>switch\<close> has no default case.
\<close>

definition performTokenInteraction ::
  "env \<Rightarrow> wallet list \<Rightarrow> wallet \<Rightarrow> asset \<Rightarrow> string \<Rightarrow> jsval eff" where
  "performTokenInteraction E ws w tokenData action =
     (case tokenAccounts w (address tokenData) of
        None \<Rightarrow> throw (Error ''Token not found'')
      | Some tokenInfo \<Rightarrow>
          if action = ''mint'' then
            andThen (call_random E) (\<lambda>r.
            let amount = floor_times r 1000 + 1 in
            throw (ReferenceError ''mintTo is not defined''))
          else if action = ''transfer'' then
            andThen (call_random E) (\<lambda>r.
            let transferAmount = floor_times r 100 + 1 in
            andThen (call_random E) (\<lambda>r'.
            let randomWallet = randomWalletOf ws r' in
            throw (ReferenceError ''getOrCreateAssociatedTokenAccount is not defined'')))
          else if action = ''burn'' then
            andThen (call_random E) (\<lambda>r.
            let burnAmount = floor_times r 50 + 1 in
            throw (ReferenceError ''burn is not defined''))
          else ret Undefined)"

text \<open>\<open>performNFTInteraction\<close>: the cases are \<open>mint\<close>, \<open>transfer\<close> and \<open>updateMetadata\<close>; no default case.\<close>

definition performNFTInteraction ::
  "env \<Rightarrow> wallet list \<Rightarrow> wallet \<Rightarrow> asset \<Rightarrow> string \<Rightarrow> jsval eff" where
  "performNFTInteraction E ws w nftData action =
     (case nftAccounts w (address nftData) of
        None \<Rightarrow> throw (Error ''NFT not found'')
      | Some nft \<Rightarrow>
          if action = ''mint'' then
            andThen (call_now E) (\<lambda>now.
            andThen (call_nftsCreate E (nft_name nft @ '' #'' @ show_nat now)
                       (Some (nft_address nft)) (keypair w)) (\<lambda>newNFT.
            ret (Str (''Minted new NFT: '' @ nft_address newNFT))))
          else if action = ''transfer'' then
            andThen (call_random E) (\<lambda>r.
            case randomWalletOf ws r of
              None \<Rightarrow> throw undefined_publicKey
            | Some randomWallet \<Rightarrow>
                andThen (call_nftsTransfer E (nft_address nft) (publicKey w) (publicKey randomWallet)) (\<lambda>u.
                ret (Str (''Transferred NFT to wallet #'' @ show_nat (index randomWallet)))))
          else if action = ''updateMetadata'' then
            andThen (call_now E) (\<lambda>now.
            andThen (call_nftsUpdate E (nft_address nft)
                       (nft_name nft @ '' Updated '' @ show_nat now)) (\<lambda>u.
            ret (Str ''Updated NFT metadata'')))
          else ret Undefined)"

text \<open>
  \<open>startDeployment\<close> takes every choice but \<open>1\<close> and \<open>3\<close> for the NFT branch:
  \<open>choice === '1' ? ... : ...\<close> selects the type, the actions, the deployer and
  the interaction method.
\<close>

definition contractType :: "string \<Rightarrow> string" where
  "contractType choice = (if choice = ''1'' then ''Token'' else ''NFT'')"

definition interactionsOf :: "string \<Rightarrow> string list" where
  "interactionsOf choice = (if choice = ''1'' then TOKEN_INTERACTIONS else NFT_INTERACTIONS)"


definition performInteraction ::
  "env \<Rightarrow> string \<Rightarrow> wallet list \<Rightarrow> wallet \<Rightarrow> asset \<Rightarrow> string \<Rightarrow> jsval eff" where
  "performInteraction E choice ws w result action =
     (if choice = ''1'' then performTokenInteraction E ws w result action
      else performNFTInteraction E ws w result action)"

text \<open>The body of the interaction loop at iteration \<open>i\<close>.\<close>

definition interactionStep :: "env \<Rightarrow> string \<Rightarrow> wallet \<Rightarrow> asset \<Rightarrow> number \<Rightarrow> deployer \<Rightarrow> deployer" where
  "interactionStep E choice w result i d =
     (case draw E d of
        (r, d1) \<Rightarrow>
          (let action = interactionsOf choice ! floor_times r (length (interactionsOf choice));
               d2 = log (SpinnerStart (''Interaction '' @ numberToString E i @ ''/''
                           @ numberToString E (interactionCount (settings d1)) @ '': '' @ action)) d1;
               d3 = log (Perform (index w) (address result) action) d2
           in case run (performInteraction E choice (wallets d3) w result action) d3 of
                (Inr interactionResult, d4) \<Rightarrow>
                  (case clock E (log (SpinnerSucceed (render interactionResult)) d4) of
                     (now, d5) \<Rightarrow>
                       (let d6 = d5\<lparr>interactions := interactions d5 @
                                   [Interaction now (index w) (contractType choice) action interactionResult]\<rparr>
                        in if number_less i (interactionCount (settings d6))
                           then log (SetTimeout (times_nat (times_nat (interactionInterval (settings d6)) 60) 1000)) d6
                           else d6))
              | (Inl error, d4) \<Rightarrow>
                  log (SpinnerFail (''Interaction failed: '' @ message error)) d4))"

lemma interactionStep_frame:
  "settings (interactionStep E choice w result i d) = settings d \<and>
   wallets (interactionStep E choice w result i d) = wallets d \<and>
   deployments (interactionStep E choice w result i d) = deployments d"
  by (auto simp: interactionStep_def Let_def split: prod.splits sum.splits
           dest!: run_frame draw_frame clock_frame)

text \<open>\<open>for (let i = 1; i <= this.settings.interactionCount; i++)\<close>, from \<open>i\<close> on.\<close>

partial_function (option) interactionLoop ::
  "env \<Rightarrow> string \<Rightarrow> wallet \<Rightarrow> asset \<Rightarrow> number \<Rightarrow> deployer \<Rightarrow> deployer option" where
  "interactionLoop E choice w result i d =
     (if number_le i (interactionCount (settings d))
      then interactionLoop E choice w result (increment i) (interactionStep E choice w result i d)
      else Some d)"







subsection \<open>Reading a run\<close>

text \<open>What a method adds to the effects, the deployments and the interactions of the object.\<close>

definition newEvents :: "deployer \<Rightarrow> deployer \<Rightarrow> event list" where
  "newEvents d d' = drop (length (trace d)) (trace d')"


definition newInteractions :: "deployer \<Rightarrow> deployer \<Rightarrow> interaction list" where
  "newInteractions d d' = drop (length (interactions d)) (interactions d')"

text \<open>An interaction attempt for the wallet with index \<open>j\<close> and the asset at \<open>a\<close>.\<close>

fun attemptFor :: "nat \<Rightarrow> string \<Rightarrow> event \<Rightarrow> bool" where
  "attemptFor j a (Perform i b x) = (i = j \<and> b = a)"
| "attemptFor j a e = False"

definition attempts :: "nat \<Rightarrow> string \<Rightarrow> event list \<Rightarrow> nat" where
  "attempts j a es = length (filter (attemptFor j a) es)"


definition deploymentsFor :: "nat \<Rightarrow> string \<Rightarrow> deployment list \<Rightarrow> nat" where
  "deploymentsFor j a xs = length (filter (\<lambda>x. d_walletIndex x = j \<and> d_address x = a) xs)"

text \<open>The attempts and the delays among some effects, in order; the balance look-ups.\<close>

fun isPacing :: "event \<Rightarrow> bool" where
  "isPacing (Perform i b x) = True"
| "isPacing (SetTimeout ms) = True"
| "isPacing e = False"

fun balanceKey :: "event \<Rightarrow> string list" where
  "balanceKey (Chain (GetBalance pk)) = [pk]"
| "balanceKey e = []"

definition balanceLookups :: "event list \<Rightarrow> string list" where
  "balanceLookups es = concat (map balanceKey es)"










text \<open>The names of the files some effects write, in order.\<close>

fun writtenFile :: "event \<Rightarrow> string list" where
  "writtenFile (WriteFile file content) = [file]"
| "writtenFile e = []"

definition writtenFiles :: "event list \<Rightarrow> string list" where
  "writtenFiles es = concat (map writtenFile es)"

subsection \<open>A concrete world and concrete wallets\<close>

text \<open>The double that the literal \<open>0.7\<close> denotes, \<open>6305039478318694 / 2^53\<close>.\<close>

definition double_0_7 :: fraction where
  "double_0_7 = dyadic 6305039478318694 53"

text \<open>
  An environment in which every chain call succeeds, \<open>Math.random()\<close> is always
  0.7 and the clock advances by one millisecond per effect, and a deployer with three
  wallets. The concrete runs below vary it field by field.
\<close>

definition demoEnv :: env where
  "demoEnv =
     \<lparr> decodeKey = (\<lambda>key. if take 4 key = ''good'' then Some (Keypair key (''pk-'' @ key)) else None),
       mathRandom = (\<lambda>n. double_0_7),
       dateNow = (\<lambda>n. 1700000000000 + n),
       getBalance = (\<lambda>n pk. Inr 500000000),
       keypairGenerate = (\<lambda>n. Keypair ''secret'' ''mintA''),
       getMinimumBalanceForRentExemption = (\<lambda>n space. Inr 1461600),
       sendAndConfirmTransaction = (\<lambda>n tx signers. Inr ''signature''),
       getAssociatedTokenAddress = (\<lambda>n m owner. Inr (''ata-'' @ owner)),
       getAccount = (\<lambda>n a. Inr ()),
       createMint = (\<lambda>n payer authority freeze decimals. Inr ''mintA''),
       getOrCreateAssociatedTokenAccount = (\<lambda>n payer m owner. Inr (''ata-'' @ owner)),
       nftsCreate = (\<lambda>n nm collection payer. Inr (Nft ''nftA'' ''metaA'' nm ''uri'' 500)),
       nftsTransfer = (\<lambda>n a fromOwner toOwner. Inr ()),
       nftsUpdate = (\<lambda>n a nm. Inr ()),
       readFileSync = (\<lambda>n file. Inr (''goodA'' @ [CHR 0x0A, CHR 0x0A] @ ''bad'' @ [CHR 0x0A]
                                       @ '' goodB'' @ [CHR 0x0A])),
       writeFileSync = (\<lambda>n file content. Inr ()),
       readdirSync = (\<lambda>n. Inr []),
       toFixed4 = (\<lambda>balance. show_int (balance div 1000000000)),
       toLocaleTimeString = show_nat,
       toISOString = show_nat,
       tableToString = (\<lambda>head rows. concat (map concat rows)),
       largeToString = show_int \<rparr>"

definition demoWallet :: "nat \<Rightarrow> string \<Rightarrow> wallet" where
  "demoWallet i key =
     \<lparr> index = i, keypair = Keypair key (''pk-'' @ key), publicKey = ''pk-'' @ key,
       tokenAccounts = Map.empty, nftAccounts = Map.empty \<rparr>"

definition demoDeployer :: deployer where
  "demoDeployer =
     new_SonicDeployer\<lparr>wallets := [demoWallet 1 ''a'', demoWallet 2 ''b'', demoWallet 3 ''c'']\<rparr>"

text \<open>A wallet that holds the token \<open>mintA\<close>, as \<open>deployToken\<close> leaves it, and one that holds the NFT \<open>nftA\<close>.\<close>

definition tokenHolder :: wallet where
  "tokenHolder =
     (demoWallet 1 ''a'')\<lparr>tokenAccounts := [''mintA'' \<mapsto> \<lparr> mint = ''mintA'', account = ''ata-pk-a'' \<rparr>]\<rparr>"

definition nftHolder :: wallet where
  "nftHolder =
     (demoWallet 1 ''a'')\<lparr>nftAccounts := [''nftA'' \<mapsto> Nft ''nftA'' ''metaA'' ''ONIXIA NFT #1'' ''uri'' 500]\<rparr>"

text \<open>
  A deployer with one wallet that holds the token, set to two interactions one minute
  apart, and a chain that rejects the transaction submitted as the fifth effect
  (the first interaction's) and confirms every other one.
\<close>

definition pacedDeployer :: deployer where
  "pacedDeployer =
     new_SonicDeployer\<lparr>wallets := [tokenHolder],
       settings := \<lparr> interactionCount = Finite 2, interactionInterval = Finite 1 \<rparr>\<rparr>"

definition rejectingEnv :: env where
  "rejectingEnv =
     demoEnv\<lparr>sendAndConfirmTransaction :=
       (\<lambda>n tx signers. if n = 4 then Inl (Error ''Transaction was not confirmed'')
                        else Inr ''signature'')\<rparr>"


text \<open>A clock that stands still for the length of the run.\<close>

definition frozenEnv :: env where
  "frozenEnv = demoEnv\<lparr>dateNow := (\<lambda>n. 1700000000000)\<rparr>"

text \<open>A key file whose first line is malformed: \<open>bad\<close>, then \<open>goodA\<close>.\<close>

definition malformedFirstEnv :: env where
  "malformedFirstEnv = demoEnv\<lparr>readFileSync := (\<lambda>n file. Inr (''bad'' @ [CHR 0x0A] @ ''goodA''))\<rparr>"

section \<open>Properties\<close>

subsection \<open>Decimal numerals are read back by \<open>parseInt\<close>\<close>

lemma digit_cases:
  assumes "d < (10::nat)"
  obtains "d = 0" | "d = 1" | "d = 2" | "d = 3" | "d = 4" | "d = 5" | "d = 6" | "d = 7" | "d = 8" | "d = 9"
  using assms by atomize_elim arith

lemma digit_char_in_digits: "d < 10 \<Longrightarrow> digit_char d \<in> set ''0123456789''"
  by (erule digit_cases) (simp_all add: digit_char_def)

lemma digit_val_digit_char: "d < 10 \<Longrightarrow> digit_val 10 (digit_char d) = Some d"
  by (erule digit_cases) (simp_all add: digit_char_def digit_val_def)

lemma set_show_nat: "set (show_nat n) \<subseteq> set ''0123456789''"
proof (induction n rule: show_nat.induct)
  case (1 n)
  show ?case
  proof (cases "n < 10")
    case True
    then show ?thesis
      using digit_char_in_digits [of n] by (subst show_nat.simps) simp
  next
    case False
    have "n mod 10 < 10" by simp
    then have "digit_char (n mod 10) \<in> set ''0123456789''"
      by (rule digit_char_in_digits)
    with False 1 show ?thesis by (subst show_nat.simps) simp
  qed
qed

lemma show_nat_not_Nil: "show_nat n \<noteq> []"
  by (subst show_nat.simps) simp

lemma read_digits_show_nat:
  "read_digits 10 (show_nat n @ rest) acc =
   read_digits 10 rest (acc * 10 ^ length (show_nat n) + n)"
proof (induction n arbitrary: rest acc rule: show_nat.induct)
  case (1 n)
  show ?case
  proof (cases "n < 10")
    case True
    then show ?thesis
      by (subst (1 2) show_nat.simps) (simp add: digit_val_digit_char)
  next
    case False
    have m: "n mod 10 < 10" by simp
    have "read_digits 10 (show_nat n @ rest) acc =
        read_digits 10 (show_nat (n div 10) @ (digit_char (n mod 10) # rest)) acc"
      using False by (subst show_nat.simps) simp
    also have "\<dots> = read_digits 10 (digit_char (n mod 10) # rest)
        (acc * 10 ^ length (show_nat (n div 10)) + n div 10)"
      using False by (simp add: 1)
    also have "\<dots> = read_digits 10 rest
        ((acc * 10 ^ length (show_nat (n div 10)) + n div 10) * 10 + n mod 10)"
      by (simp add: digit_val_digit_char [OF m])
    also have "(acc * 10 ^ length (show_nat (n div 10)) + n div 10) * 10 + n mod 10
        = acc * 10 ^ length (show_nat n) + n"
      using False by (subst (2) show_nat.simps) (simp add: algebra_simps)
    finally show ?thesis .
  qed
qed

lemma digit_val_of_digit: "c \<in> set ''0123456789'' \<Longrightarrow> \<exists>d. digit_val 10 c = Some d"
  by (auto simp: digit_val_def)

lemma digit_not_special:
  "c \<in> set ''0123456789'' \<Longrightarrow>
   \<not> is_space c \<and> c \<noteq> CHR ''-'' \<and> c \<noteq> CHR ''+'' \<and> c \<noteq> CHR ''x'' \<and> c \<noteq> CHR ''X''"
  by (auto simp: is_space_def)

lemma parse_radix_show_nat: "parse_radix 10 (show_nat n) = Some n"
proof -
  obtain c cs where s: "show_nat n = c # cs"
    using show_nat_not_Nil [of n] by (cases "show_nat n") auto
  then have "c \<in> set ''0123456789''"
    using set_show_nat [of n] by auto
  then obtain d where d: "digit_val 10 c = Some d"
    using digit_val_of_digit by blast
  have "read_digits 10 (show_nat n) 0 = n"
    using read_digits_show_nat [of n "[]" 0] by simp
  with s d show ?thesis by (simp add: parse_radix_def)
qed

lemma parse_unsigned_show_nat: "parse_unsigned (show_nat n) = Some n"
proof -
  have x: "CHR ''x'' \<notin> set (show_nat n)" "CHR ''X'' \<notin> set (show_nat n)"
    using set_show_nat [of n] digit_not_special by blast+
  have "take 2 (show_nat n) \<noteq> ''0x''"
  proof
    assume "take 2 (show_nat n) = ''0x''"
    then have "CHR ''x'' \<in> set (take 2 (show_nat n))" by simp
    then show False using x(1) by (blast dest: in_set_takeD)
  qed
  moreover have "take 2 (show_nat n) \<noteq> ''0X''"
  proof
    assume "take 2 (show_nat n) = ''0X''"
    then have "CHR ''X'' \<in> set (take 2 (show_nat n))" by simp
    then show False using x(2) by (blast dest: in_set_takeD)
  qed
  ultimately show ?thesis
    by (simp add: parse_unsigned_def parse_radix_show_nat)
qed

lemma parse_integer_show_int: "parse_integer (show_int n) = Some n"
proof (cases "n < 0")
  case True
  have "\<not> is_space CHR ''-''" by (simp add: is_space_def)
  with True show ?thesis
    by (simp add: parse_integer_def show_int_def parse_unsigned_show_nat)
next
  case False
  obtain c cs where s: "show_nat (nat n) = c # cs"
    using show_nat_not_Nil [of "nat n"] by (cases "show_nat (nat n)") auto
  then have "c \<in> set ''0123456789''"
    using set_show_nat [of "nat n"] by auto
  then have c: "\<not> is_space c" "c \<noteq> CHR ''-''" "c \<noteq> CHR ''+''"
    using digit_not_special by blast+
  have "parse_unsigned (c # cs) = Some (nat n)"
    using parse_unsigned_show_nat [of "nat n"] s by simp
  with False s c show ?thesis
    by (simp add: parse_integer_def show_int_def)
qed

lemma parseInt_show_int: "parseInt (show_int n) = toNumber n"
  by (simp add: parseInt_def parse_integer_show_int)

subsection \<open>The settings menu\<close>

lemma truthy_toNumber: "n \<noteq> 0 \<Longrightarrow> truthy (toNumber n)"
  using toNumber_not_zero [of n] by (simp add: truthy_def)

lemma parseInt_or_truthy: "truthy d \<Longrightarrow> truthy (parseInt_or text d)"
  by (simp add: parseInt_or_def)

lemma parseInt_or_show_int: "n \<noteq> 0 \<Longrightarrow> parseInt_or (show_int n) d = toNumber n"
  by (simp add: parseInt_or_def parseInt_show_int truthy_toNumber)

lemma settingsMenu_truthy:
  "truthy (interactionCount s) \<Longrightarrow> truthy (interactionInterval s) \<Longrightarrow>
   truthy (interactionCount (fst (settingsMenu answers s))) \<and>
   truthy (interactionInterval (fst (settingsMenu answers s)))"
proof (induction answers s rule: settingsMenu.induct)
  case (1 s)
  then show ?case by simp
next
  case (2 choice rest s)
  have d: "truthy (Finite 3)" "truthy (Finite 1)" by (simp_all add: truthy_def)
  show ?case
  proof (cases rest)
    case Nil
    with 2 show ?thesis by simp
  next
    case (Cons a rest')
    with 2 d show ?thesis by (simp add: parseInt_or_truthy)
  qed
qed

text \<open>What the menu stores for two entries beyond the whole numbers a double holds exactly.\<close>

lemma parseInt_rounds: "parseInt ''9007199254740993'' = Finite 9007199254740992"
  by (simp add: parseInt_def parse_integer_def parse_unsigned_def parse_radix_def digit_val_def
      is_space_def toNumber_def round53_def bit_length.simps Let_def)

lemma parseInt_overflows: "parseInt (show_int (10 ^ 309)) = Infinity"
proof -
  have "toNumber (10 ^ 309) = Infinity" by (rule toNumber_Infinity) simp
  then show ?thesis by (simp only: parseInt_show_int)
qed

text \<open>
  Claim C5, as the code has it. The settings start at 3 and 1. Whatever the
  operator answers in the settings menu, in one visit or in several, both settings
  stay truthy, that is neither zero nor \<open>NaN\<close>. An entry whose text \<open>parseInt\<close>
  reads as a whole number other than zero is stored as the double of that number,
  negative numbers included: as it is up to \<open>2^53\<close> in size, rounded beyond, and as
  an infinity from \<open>2^1024\<close> on. An entry that is no number or is zero stores the
  default, 3 for the count and 1 for the interval. So every whole number other than
  zero that a double holds exactly can be set, for either field, by typing it, and
  zero can be set for neither.
\<close>

theorem settingsMenu_stores_nonzero:
  "interactionCount initial_settings = Finite 3 \<and> interactionInterval initial_settings = Finite 1 \<and>
   (truthy (interactionCount s) \<and> truthy (interactionInterval s) \<longrightarrow>
      truthy (interactionCount (fst (settingsMenu answers s))) \<and>
      truthy (interactionInterval (fst (settingsMenu answers s)))) \<and>
   (n \<noteq> 0 \<longrightarrow>
      interactionCount (fst (settingsMenu [''1'', show_int n] s)) = toNumber n \<and>
      interactionInterval (fst (settingsMenu [''2'', show_int n] s)) = toNumber n) \<and>
   (n \<noteq> 0 \<and> \<bar>n\<bar> \<le> 2 ^ 53 \<longrightarrow>
      interactionCount (fst (settingsMenu [''1'', show_int n] s)) = Finite n \<and>
      interactionInterval (fst (settingsMenu [''2'', show_int n] s)) = Finite n) \<and>
   (2 ^ 1024 \<le> n \<longrightarrow>
      interactionCount (fst (settingsMenu [''1'', show_int n] s)) = Infinity \<and>
      interactionInterval (fst (settingsMenu [''2'', show_int n] s)) = Infinity) \<and>
   (\<not> truthy (parseInt text) \<longrightarrow>
      interactionCount (fst (settingsMenu [''1'', text] s)) = Finite 3 \<and>
      interactionInterval (fst (settingsMenu [''2'', text] s)) = Finite 1)"
proof -
  have a: "truthy (interactionCount s) \<and> truthy (interactionInterval s) \<longrightarrow>
      truthy (interactionCount (fst (settingsMenu answers s))) \<and>
      truthy (interactionInterval (fst (settingsMenu answers s)))"
    using settingsMenu_truthy [of s answers] by blast
  have b: "n \<noteq> 0 \<longrightarrow>
      interactionCount (fst (settingsMenu [''1'', show_int n] s)) = toNumber n \<and>
      interactionInterval (fst (settingsMenu [''2'', show_int n] s)) = toNumber n"
    by (simp add: parseInt_or_show_int)
  have c: "n \<noteq> 0 \<and> \<bar>n\<bar> \<le> 2 ^ 53 \<longrightarrow>
      interactionCount (fst (settingsMenu [''1'', show_int n] s)) = Finite n \<and>
      interactionInterval (fst (settingsMenu [''2'', show_int n] s)) = Finite n"
    using b toNumber_exact [of n] by auto
  have "2 ^ 1024 \<le> n \<Longrightarrow> n \<noteq> 0"
  proof -
    assume "2 ^ 1024 \<le> n"
    moreover have "(0::int) < 2 ^ 1024" by (rule zero_less_power) simp
    ultimately show "n \<noteq> 0" by linarith
  qed
  then have d: "2 ^ 1024 \<le> n \<longrightarrow>
      interactionCount (fst (settingsMenu [''1'', show_int n] s)) = Infinity \<and>
      interactionInterval (fst (settingsMenu [''2'', show_int n] s)) = Infinity"
    using b toNumber_Infinity [of n] by auto
  have e: "\<not> truthy (parseInt text) \<longrightarrow>
      interactionCount (fst (settingsMenu [''1'', text] s)) = Finite 3 \<and>
      interactionInterval (fst (settingsMenu [''2'', text] s)) = Finite 1"
    by (simp add: parseInt_or_def)
  have i: "interactionCount initial_settings = Finite 3 \<and> interactionInterval initial_settings = Finite 1"
    by (simp add: initial_settings_def)
  from i a b c d e show ?thesis by blast
qed

lemma parseInt_zero: "parseInt ''0'' = Finite 0"
  by (simp add: parseInt_def parse_integer_def parse_unsigned_def parse_radix_def digit_val_def
      is_space_def toNumber_def round53_def Let_def)

theorem settingsMenu_stores_nonzero_witness:
  "truthy (interactionCount initial_settings) \<and> truthy (interactionInterval initial_settings) \<and>
   truthy (interactionCount (fst (settingsMenu [''1'', ''-5'', '''', ''2'', ''0'', '''', ''4''] initial_settings))) \<and>
   truthy (interactionInterval (fst (settingsMenu [''1'', ''-5'', '''', ''2'', ''0'', '''', ''4''] initial_settings))) \<and>
   (- 5 :: int) \<noteq> 0 \<and> \<bar>- 5 :: int\<bar> \<le> 2 ^ 53 \<and>
   interactionCount (fst (settingsMenu [''1'', show_int (- 5)] initial_settings)) = Finite (- 5) \<and>
   interactionInterval (fst (settingsMenu [''2'', show_int (- 5)] initial_settings)) = Finite (- 5) \<and>
   (2 :: int) ^ 1024 \<le> 10 ^ 309 \<and>
   interactionCount (fst (settingsMenu [''1'', show_int (10 ^ 309)] initial_settings)) = Infinity \<and>
   \<not> truthy (parseInt ''0'') \<and>
   interactionCount (fst (settingsMenu [''1'', ''0''] initial_settings)) = Finite 3 \<and>
   interactionInterval (fst (settingsMenu [''2'', ''0''] initial_settings)) = Finite 1"
proof -
  have z: "\<not> truthy (parseInt ''0'')"
    by (simp add: parseInt_zero truthy_def)
  have i: "truthy (interactionCount initial_settings) \<and> truthy (interactionInterval initial_settings)"
    by (simp add: initial_settings_def truthy_def)
  have n: "(- 5 :: int) \<noteq> 0 \<and> \<bar>- 5 :: int\<bar> \<le> 2 ^ 53" by simp
  have b: "(2 :: int) ^ 1024 \<le> 10 ^ 309" by simp
  show ?thesis
    using settingsMenu_stores_nonzero
      [of initial_settings "[''1'', ''-5'', '''', ''2'', ''0'', '''', ''4'']" "- 5" "''0''"]
      settingsMenu_stores_nonzero [of initial_settings "[]" "10 ^ 309" "''0''"] z i n b
    by blast
qed

lemma parseInt_minus_5: "parseInt ''-5'' = Finite (- 5)"
  by (simp add: parseInt_def parse_integer_def parse_unsigned_def parse_radix_def digit_val_def
      is_space_def toNumber_def round53_def Let_def)

theorem settingsMenu_range_counterexample:
  "interactionCount (fst (settingsMenu [''1'', ''-5'', '''', ''4''] initial_settings)) = Finite (- 5) \<and>
   interactionInterval (fst (settingsMenu [''2'', ''-5'', '''', ''4''] initial_settings)) = Finite (- 5) \<and>
   interactionInterval (fst (settingsMenu [''2'', ''0'', '''', ''4''] initial_settings)) = Finite 1 \<and>
   interactionCount (fst (settingsMenu [''1'', show_int (10 ^ 309), '''', ''4''] initial_settings)) = Infinity"
proof -
  define entry where "entry = show_int (10 ^ 309)"
  have "parseInt entry = Infinity"
    unfolding entry_def by (rule parseInt_overflows)
  then have "interactionCount (fst (settingsMenu [''1'', entry, '''', ''4''] initial_settings)) = Infinity"
    by (simp add: parseInt_or_def truthy_def)
  then show ?thesis
    unfolding entry_def
    by (simp add: parseInt_or_def parseInt_minus_5 parseInt_zero truthy_def initial_settings_def)
qed

subsection \<open>Random draws and the evaluation of effects\<close>

lemmas eff_defs = ret_def throw_def andThen_def tryCatch_def emit_def ask_def run_def

lemma units_dyadic:
  "j \<le> 1074 \<Longrightarrow> k < 2 ^ j \<Longrightarrow> k < 2 ^ 53 \<Longrightarrow> units (dyadic k j) = k * 2 ^ (1074 - j)"
  by (simp only: dyadic.rep_eq simp_thms if_True)

lemma floor_times_dyadic:
  assumes "j \<le> 1074" "k < 2 ^ j" "k < 2 ^ 53"
  shows "floor_times (dyadic k j) n = round53 (k * n) div 2 ^ j"
proof -
  have "units (dyadic k j) * n = (k * n) * 2 ^ (1074 - j)"
    by (simp only: units_dyadic [OF assms] mult_ac)
  then have "round53 (units (dyadic k j) * n) = round53 (k * n) * 2 ^ (1074 - j)"
    by (simp only: round53_shift)
  moreover have "(2::nat) ^ 1074 = 2 ^ j * 2 ^ (1074 - j)"
    using assms(1) by (simp only: power_add [symmetric] le_add_diff_inverse)
  moreover have "round53 (k * n) * 2 ^ (1074 - j) div (2 ^ j * 2 ^ (1074 - j)) = round53 (k * n) div 2 ^ j"
    by (rule div_mult_mult2) simp
  ultimately show ?thesis
    unfolding floor_times_def by (simp only:)
qed

lemma pow_1074: "(2::nat) ^ 1074 = 2 ^ 53 * 2 ^ 1021"
proof -
  have "(2::nat) ^ (53 + 1021) = 2 ^ 53 * 2 ^ 1021" by (rule power_add)
  moreover have "53 + 1021 = (1074::nat)" by simp
  ultimately show ?thesis by (simp only:)
qed

lemma pow_1073: "(2::nat) ^ 1073 = 2 ^ 52 * 2 ^ 1021"
proof -
  have "(2::nat) ^ (52 + 1021) = 2 ^ 52 * 2 ^ 1021" by (rule power_add)
  moreover have "52 + 1021 = (1073::nat)" by simp
  ultimately show ?thesis by (simp only:)
qed

lemma units_below_one: "units r + 2 ^ 1021 \<le> 2 ^ 1074"
proof -
  define m where "m = units r"
  define P :: nat where "P = 2 ^ 1021"
  have lt: "m < 2 ^ 53 * P" and fx: "round53 m = m"
    using units [of r] unfolding m_def P_def pow_1074 [symmetric] by simp_all
  have "m + P \<le> 2 ^ 53 * P"
  proof (cases "m < 2 ^ 52 * P")
    case True
    have "P \<le> 2 ^ 52 * P" by simp
    with True have "m + P \<le> 2 ^ 52 * P + 2 ^ 52 * P" by linarith
    then show ?thesis by simp
  next
    case False
    then have lo: "2 ^ 1073 \<le> m" unfolding P_def pow_1073 [symmetric] by simp
    have hi: "m < 2 ^ Suc 1073" using lt unfolding P_def pow_1074 [symmetric] by simp
    from lo hi have bl: "bit_length m = Suc 1073" by (rule bit_length_eq)
    then have e: "bit_length m - 53 = 1021" by simp
    have "(2::nat) ^ 53 \<le> 2 ^ 1073" by (rule power_increasing) simp_all
    with lo have nb: "\<not> m < 2 ^ 53" by linarith
    have "round53 m = (m div P + 1) * P \<or> round53 m = m div P * P"
      using nb unfolding round53_def Let_def e P_def [symmetric] by (simp only: if_False) presburger
    with fx obtain j where j: "m = j * P" by metis
    with lt have "j * P < 2 ^ 53 * P" by simp
    then have "j < 2 ^ 53" by simp
    then have "j + 1 \<le> 2 ^ 53" by simp
    then have "(j + 1) * P \<le> 2 ^ 53 * P" by (rule mult_le_mono1)
    then show ?thesis unfolding j by (simp add: algebra_simps)
  qed
  then show ?thesis unfolding m_def P_def pow_1074 .
qed

lemma floor_times_less: "0 < n \<Longrightarrow> floor_times r n < n"
proof -
  assume n: "0 < n"
  define P :: nat where "P = 2 ^ 1021"
  define x where "x = units r * n"
  have u: "units r + P \<le> 2 ^ 53 * P"
    using units_below_one [of r] unfolding P_def pow_1074 .
  then have "(units r + P) * n \<le> 2 ^ 53 * P * n" by (rule mult_le_mono1)
  then have xb: "x + P * n \<le> 2 ^ 53 * P * n" by (simp add: x_def algebra_simps)
  have Ppos: "0 < P" by (simp add: P_def)
  have "round53 x < 2 ^ 53 * P * n"
  proof (cases "x < 2 ^ 53")
    case True
    then have "round53 x = x" by (simp add: round53_def)
    moreover have "0 < P * n" using Ppos n by simp
    ultimately show ?thesis using xb by linarith
  next
    case False
    then have big: "2 ^ 53 \<le> x" by simp
    define b where "b = bit_length x"
    from big have "53 < b" unfolding b_def by (rule bit_length_gt)
    then have b1: "b - 1 = (b - 54) + 53" by simp
    have "0 < x" using big by (simp add: less_le_trans [of 0 "2 ^ 53" x])
    then have "2 ^ (b - 1) \<le> x" unfolding b_def using bit_length_bounds by simp
    then have "2 ^ (b - 54) * 2 ^ 53 \<le> x" unfolding b1 power_add .
    moreover have "x < 2 ^ 53 * P * n" using xb Ppos n
      by (metis add_lessD1 less_add_same_cancel1 less_le_trans mult_pos_pos)
    ultimately have "2 ^ (b - 54) * 2 ^ 53 < (P * n) * 2 ^ 53" by (simp add: mult_ac)
    then have h: "2 ^ (b - 54) < P * n" by simp
    have "round53 x \<le> x + 2 ^ (b - 54)" unfolding b_def using big by (rule round53_upper)
    with h xb show ?thesis by linarith
  qed
  then have "round53 x < n * 2 ^ 1074" unfolding pow_1074 P_def by (simp add: mult_ac)
  then show ?thesis unfolding floor_times_def x_def by (simp add: less_mult_imp_div_less)
qed

text \<open>The loop counter.\<close>

lemma increment_not_NaN: "i \<noteq> NaN \<Longrightarrow> increment i \<noteq> NaN"
  by (cases i) (simp_all add: toNumber_def Let_def)

lemma number_le_Infinity: "i \<noteq> NaN \<Longrightarrow> number_le i Infinity"
  by (cases i) (simp_all add: number_le_def)

lemma increment_stays:
  assumes "0 \<le> k" and "k \<le> 2 ^ 53"
  shows "\<exists>k'. increment (Finite k) = Finite k' \<and> 0 \<le> k' \<and> k' \<le> 2 ^ 53"
proof (cases "k = 2 ^ 53")
  case True
  have "toNumber (2 ^ 53 + 1) = Finite (2 ^ 53)"
    by (simp add: toNumber_def round53_def bit_length.simps Let_def)
  with True show ?thesis by simp
next
  case False
  with assms have "\<bar>k + 1\<bar> \<le> 2 ^ 53" by simp
  then have "increment (Finite k) = Finite (k + 1)" by (simp add: toNumber_exact)
  with assms False show ?thesis by simp
qed

text \<open>
  The draws of the concrete runs below, and one that shows the rounding at work: for
  the double of \<open>0.24\<close> the exact product with 50 is below 12, the rounded one is
  12.
\<close>

lemma floor_times_0_7:
  "floor_times double_0_7 1 = 0" "floor_times double_0_7 3 = 2" "floor_times double_0_7 50 = 35"
  "floor_times double_0_7 100 = 70" "floor_times double_0_7 1000 = 700"
  by (simp_all add: double_0_7_def floor_times_dyadic round53_def bit_length.simps Let_def)

lemma floor_times_0_7_Suc:
  "floor_times double_0_7 (Suc 0) = 0" "floor_times double_0_7 (Suc (Suc (Suc 0))) = 2"
  using floor_times_0_7(1,2) by (simp_all add: numeral_3_eq_3)

lemma rounding_before_floor:
  "floor_times (dyadic 8646911284551352 55) 50 = 12 \<and> (8646911284551352 * 50) div 2 ^ 55 = (11 :: nat)"
  by (simp add: floor_times_dyadic round53_def bit_length.simps Let_def)

subsection \<open>What the methods add to the effects\<close>








lemmas call_defs = call_random_def call_now_def call_getBalance_def call_generate_def
  call_getMinimumBalanceForRentExemption_def call_sendAndConfirmTransaction_def
  call_getAssociatedTokenAddress_def call_getAccount_def call_createMint_def
  call_getOrCreateAssociatedTokenAccount_def call_nftsCreate_def call_nftsTransfer_def
  call_nftsUpdate_def









lemma balanceLookups_append [simp]:
  "balanceLookups (xs @ ys) = balanceLookups xs @ balanceLookups ys"
  by (simp add: balanceLookups_def)

lemma balanceLookups_Cons [simp]: "balanceLookups (e # es) = balanceKey e @ balanceLookups es"
  by (simp add: balanceLookups_def)

lemma balanceLookups_Nil [simp]: "balanceLookups [] = []"
  by (simp add: balanceLookups_def)






lemma attempts_append [simp]: "attempts j a (xs @ ys) = attempts j a xs + attempts j a ys"
  by (simp add: attempts_def)



lemma deploymentsFor_Nil [simp]: "deploymentsFor j a [] = 0"
  by (simp add: deploymentsFor_def)

lemma deploymentsFor_append [simp]:
  "deploymentsFor j a (xs @ ys) = deploymentsFor j a xs + deploymentsFor j a ys"
  by (simp add: deploymentsFor_def)



lemma catchWallet_trace:
  "trace (catchWallet e d) = trace d @ [Console (''Error processing wallet: '' @ message e),
      Question ''Press Enter to continue with next wallet...'']"
  by (simp add: catchWallet_def)

lemma catchWallet_frame:
  "settings (catchWallet e d) = settings d \<and> wallets (catchWallet e d) = wallets d \<and>
   deployments (catchWallet e d) = deployments d \<and> interactions (catchWallet e d) = interactions d"
  by (simp add: catchWallet_def)





subsection \<open>The run of \<open>deploy.js\<close>: attempts, deployments and balance look-ups\<close>













text \<open>
  For a count of \<open>Infinity\<close>, or of \<open>2^53\<close> or more, the loop does not return: the
  counter stays below the count for ever, at \<open>2^53\<close> in the end, where \<open>i++\<close> no
  longer changes it.
\<close>

lemma interactionLoop_Infinity:
  assumes "interactionLoop E c w r i d = Some d'"
  shows "\<not> (i \<noteq> NaN \<and> interactionCount (settings d) = Infinity)"
proof (rule interactionLoop.raw_induct
    [where P = "\<lambda>E c w r i d d'. \<not> (i \<noteq> NaN \<and> interactionCount (settings d) = Infinity)",
     OF _ assms])
  fix loop E c w r i d d'
  assume ih: "\<And>E c w r i d d'. loop E c w r i d = Some d' \<Longrightarrow>
      \<not> (i \<noteq> NaN \<and> interactionCount (settings d) = Infinity)"
    and eq: "(if number_le i (interactionCount (settings d))
        then loop E c w r (increment i) (interactionStep E c w r i d)
        else Some d) = Some d'"
  show "\<not> (i \<noteq> NaN \<and> interactionCount (settings d) = Infinity)"
  proof
    assume a: "i \<noteq> NaN \<and> interactionCount (settings d) = Infinity"
    then have "number_le i (interactionCount (settings d))" by (simp add: number_le_Infinity)
    with eq have "loop E c w r (increment i) (interactionStep E c w r i d) = Some d'" by simp
    from ih [OF this] a show False
      by (simp add: increment_not_NaN interactionStep_frame)
  qed
qed

lemma interactionLoop_large:
  assumes "interactionLoop E c w r i d = Some d'"
  shows "\<not> (\<exists>k cc. i = Finite k \<and> 0 \<le> k \<and> k \<le> 2 ^ 53 \<and>
      interactionCount (settings d) = Finite cc \<and> 2 ^ 53 \<le> cc)"
proof (rule interactionLoop.raw_induct
    [where P = "\<lambda>E c w r i d d'. \<not> (\<exists>k cc. i = Finite k \<and> 0 \<le> k \<and> k \<le> 2 ^ 53 \<and>
      interactionCount (settings d) = Finite cc \<and> 2 ^ 53 \<le> cc)", OF _ assms])
  fix loop E c w r i d d'
  assume ih: "\<And>E c w r i d d'. loop E c w r i d = Some d' \<Longrightarrow>
      \<not> (\<exists>k cc. i = Finite k \<and> 0 \<le> k \<and> k \<le> 2 ^ 53 \<and>
      interactionCount (settings d) = Finite cc \<and> 2 ^ 53 \<le> cc)"
    and eq: "(if number_le i (interactionCount (settings d))
        then loop E c w r (increment i) (interactionStep E c w r i d)
        else Some d) = Some d'"
  show "\<not> (\<exists>k cc. i = Finite k \<and> 0 \<le> k \<and> k \<le> 2 ^ 53 \<and>
      interactionCount (settings d) = Finite cc \<and> 2 ^ 53 \<le> cc)"
  proof
    assume "\<exists>k cc. i = Finite k \<and> 0 \<le> k \<and> k \<le> 2 ^ 53 \<and>
      interactionCount (settings d) = Finite cc \<and> 2 ^ 53 \<le> cc"
    then obtain k cc where a: "i = Finite k" "0 \<le> k" "k \<le> 2 ^ 53"
      "interactionCount (settings d) = Finite cc" "2 ^ 53 \<le> cc"
      by blast
    then have "number_le i (interactionCount (settings d))" by (auto simp: number_le_def)
    with eq have l: "loop E c w r (increment i) (interactionStep E c w r i d) = Some d'" by simp
    from increment_stays [OF a(2,3)] obtain k' where
      k': "increment i = Finite k'" "0 \<le> k'" "k' \<le> 2 ^ 53"
      unfolding a(1) by blast
    have "interactionCount (settings (interactionStep E c w r i d)) = Finite cc"
      using a(4) by (simp add: interactionStep_frame)
    with k' a(5) have "\<exists>k cc. increment i = Finite k \<and> 0 \<le> k \<and> k \<le> 2 ^ 53 \<and>
        interactionCount (settings (interactionStep E c w r i d)) = Finite cc \<and> 2 ^ 53 \<le> cc"
      by blast
    with ih [OF l] show False by blast
  qed
qed

lemma interactionLoop_never_returns:
  assumes "interactionCount (settings d) = Infinity \<or>
    (\<exists>cc. interactionCount (settings d) = Finite cc \<and> 2 ^ 53 \<le> cc)"
  shows "interactionLoop E c w r (Finite 1) d = None"
proof (cases "interactionLoop E c w r (Finite 1) d")
  case None
  then show ?thesis .
next
  case (Some d')
  from interactionLoop_Infinity [OF Some] interactionLoop_large [OF Some] assms
  show ?thesis by auto
qed






subsection \<open>The run of \<open>part_000\<close>: attempts, deployments and balance look-ups\<close>







text \<open>
  For a count of \<open>Infinity\<close>, or of \<open>2^53\<close> or more, the loop does not return: the
  counter stays below the count for ever, at \<open>2^53\<close> in the end, where \<open>i++\<close> no
  longer changes it.
\<close>

lemma interactionLoop_p0_Infinity:
  assumes "interactionLoop_p0 E w r i d = Some d'"
  shows "\<not> (i \<noteq> NaN \<and> interactionCount (settings d) = Infinity)"
proof (rule interactionLoop_p0.raw_induct
    [where P = "\<lambda>E w r i d d'. \<not> (i \<noteq> NaN \<and> interactionCount (settings d) = Infinity)",
     OF _ assms])
  fix loop E w r i d d'
  assume ih: "\<And>E w r i d d'. loop E w r i d = Some d' \<Longrightarrow>
      \<not> (i \<noteq> NaN \<and> interactionCount (settings d) = Infinity)"
    and eq: "(if number_le i (interactionCount (settings d))
        then loop E w r (increment i) (interactionStep_p0 E w r i d)
        else Some d) = Some d'"
  show "\<not> (i \<noteq> NaN \<and> interactionCount (settings d) = Infinity)"
  proof
    assume a: "i \<noteq> NaN \<and> interactionCount (settings d) = Infinity"
    then have "number_le i (interactionCount (settings d))" by (simp add: number_le_Infinity)
    with eq have "loop E w r (increment i) (interactionStep_p0 E w r i d) = Some d'" by simp
    from ih [OF this] a show False
      by (simp add: increment_not_NaN interactionStep_p0_frame)
  qed
qed

lemma interactionLoop_p0_large:
  assumes "interactionLoop_p0 E w r i d = Some d'"
  shows "\<not> (\<exists>k cc. i = Finite k \<and> 0 \<le> k \<and> k \<le> 2 ^ 53 \<and>
      interactionCount (settings d) = Finite cc \<and> 2 ^ 53 \<le> cc)"
proof (rule interactionLoop_p0.raw_induct
    [where P = "\<lambda>E w r i d d'. \<not> (\<exists>k cc. i = Finite k \<and> 0 \<le> k \<and> k \<le> 2 ^ 53 \<and>
      interactionCount (settings d) = Finite cc \<and> 2 ^ 53 \<le> cc)", OF _ assms])
  fix loop E w r i d d'
  assume ih: "\<And>E w r i d d'. loop E w r i d = Some d' \<Longrightarrow>
      \<not> (\<exists>k cc. i = Finite k \<and> 0 \<le> k \<and> k \<le> 2 ^ 53 \<and>
      interactionCount (settings d) = Finite cc \<and> 2 ^ 53 \<le> cc)"
    and eq: "(if number_le i (interactionCount (settings d))
        then loop E w r (increment i) (interactionStep_p0 E w r i d)
        else Some d) = Some d'"
  show "\<not> (\<exists>k cc. i = Finite k \<and> 0 \<le> k \<and> k \<le> 2 ^ 53 \<and>
      interactionCount (settings d) = Finite cc \<and> 2 ^ 53 \<le> cc)"
  proof
    assume "\<exists>k cc. i = Finite k \<and> 0 \<le> k \<and> k \<le> 2 ^ 53 \<and>
      interactionCount (settings d) = Finite cc \<and> 2 ^ 53 \<le> cc"
    then obtain k cc where a: "i = Finite k" "0 \<le> k" "k \<le> 2 ^ 53"
      "interactionCount (settings d) = Finite cc" "2 ^ 53 \<le> cc"
      by blast
    then have "number_le i (interactionCount (settings d))" by (auto simp: number_le_def)
    with eq have l: "loop E w r (increment i) (interactionStep_p0 E w r i d) = Some d'" by simp
    from increment_stays [OF a(2,3)] obtain k' where
      k': "increment i = Finite k'" "0 \<le> k'" "k' \<le> 2 ^ 53"
      unfolding a(1) by blast
    have "interactionCount (settings (interactionStep_p0 E w r i d)) = Finite cc"
      using a(4) by (simp add: interactionStep_p0_frame)
    with k' a(5) have "\<exists>k cc. increment i = Finite k \<and> 0 \<le> k \<and> k \<le> 2 ^ 53 \<and>
        interactionCount (settings (interactionStep_p0 E w r i d)) = Finite cc \<and> 2 ^ 53 \<le> cc"
      by blast
    with ih [OF l] show False by blast
  qed
qed

lemma interactionLoop_p0_never_returns:
  assumes "interactionCount (settings d) = Infinity \<or>
    (\<exists>cc. interactionCount (settings d) = Finite cc \<and> 2 ^ 53 \<le> cc)"
  shows "interactionLoop_p0 E w r (Finite 1) d = None"
proof (cases "interactionLoop_p0 E w r (Finite 1) d")
  case None
  then show ?thesis .
next
  case (Some d')
  from interactionLoop_p0_Infinity [OF Some] interactionLoop_p0_large [OF Some] assms
  show ?thesis by auto
qed







subsection \<open>Claims about the orchestration run\<close>





subsection \<open>Claims about the interaction executor\<close>

text \<open>
  Claim C10. In both programs \<open>performTokenInteraction\<close> throws
  \<open>Token not found\<close> when the asset's address is not a key of the wallet's map
  \<open>tokenAccounts\<close>, whatever the action; it does so before anything else
  happens: nothing is drawn, nothing is submitted, and the object (wallets and their
  maps, deployments, interactions, effects) is as it was.
\<close>

theorem token_not_found:
  "tokenAccounts w (address tokenData) = None \<Longrightarrow>
   run (performTokenInteraction E ws w tokenData action) d = (Inl (Error ''Token not found''), d) \<and>
   run (performTokenInteraction_p0 E ws w tokenData action) d = (Inl (Error ''Token not found''), d)"
  by (simp add: performTokenInteraction_def performTokenInteraction_p0_def run_def throw_def)

theorem token_not_found_witness:
  "tokenAccounts (demoWallet 1 ''a'') (address (TokenData ''mintA'' ''ata-pk-a'')) = None \<and>
   run (performTokenInteraction demoEnv (wallets demoDeployer) (demoWallet 1 ''a'')
          (TokenData ''mintA'' ''ata-pk-a'') ''mint'') demoDeployer
     = (Inl (Error ''Token not found''), demoDeployer) \<and>
   run (performTokenInteraction_p0 demoEnv (wallets demoDeployer) (demoWallet 1 ''a'')
          (TokenData ''mintA'' ''ata-pk-a'') ''mint'') demoDeployer
     = (Inl (Error ''Token not found''), demoDeployer)"
proof -
  have h: "tokenAccounts (demoWallet 1 ''a'') (address (TokenData ''mintA'' ''ata-pk-a'')) = None"
    by (simp add: demoWallet_def)
  from token_not_found [OF h] h show ?thesis by blast
qed

text \<open>
  Claim C2 fails in \<open>deploy.js\<close>. For a wallet that holds the token, each of the three
  actions throws a \<open>ReferenceError\<close> and returns no string, whatever the chain and
  the random source do: the method calls \<open>mintTo\<close>,
  \<open>getOrCreateAssociatedTokenAccount\<close> and \<open>burn\<close>, names the module never binds.
\<close>

theorem deploy_js_token_interactions_throw:
  "fst (performTokenInteraction E ws tokenHolder (TokenData ''mintA'' ''ata-pk-a'') ''mint'' t)
     = Inl (ReferenceError ''mintTo is not defined'') \<and>
   fst (performTokenInteraction E ws tokenHolder (TokenData ''mintA'' ''ata-pk-a'') ''transfer'' t)
     = Inl (ReferenceError ''getOrCreateAssociatedTokenAccount is not defined'') \<and>
   fst (performTokenInteraction E ws tokenHolder (TokenData ''mintA'' ''ata-pk-a'') ''burn'' t)
     = Inl (ReferenceError ''burn is not defined'')"
  by (simp add: performTokenInteraction_def tokenHolder_def demoWallet_def call_random_def eff_defs)

text \<open>
  Claim C3, as the code has it. For a wallet that holds the token and an action that
  is none of \<open>mint\<close>, \<open>transfer\<close>, \<open>burn\<close>, \<open>performTokenInteraction\<close> of
  \<open>part_000\<close> throws \<open>Unknown action\<close> with the action's name, and the one of
  \<open>deploy.js\<close>, whose \<open>switch\<close> has no default case, returns \<open>undefined\<close>; both
  do so with no effect. Neither happens in a run: the action the orchestrator draws
  for a token is one of the three, whatever \<open>Math.random\<close> returns.
\<close>

theorem unknown_action_outcomes:
  assumes "tokenAccounts w (address tokenData) = Some tokenInfo"
    and "action \<notin> set TOKEN_INTERACTIONS"
  shows
   "performTokenInteraction_p0 E ws w tokenData action t
      = (Inl (Error (''Unknown action: '' @ action)), t) \<and>
    performTokenInteraction E ws w tokenData action t = (Inr Undefined, t) \<and>
    TOKEN_INTERACTIONS ! floor_times r (length TOKEN_INTERACTIONS) \<in> set TOKEN_INTERACTIONS \<and>
    interactionsOf ''1'' ! floor_times r (length (interactionsOf ''1'')) \<in> set TOKEN_INTERACTIONS"
proof -
  from assms(2) have a: "action \<noteq> ''mint''" "action \<noteq> ''transfer''" "action \<noteq> ''burn''"
    by (auto simp: TOKEN_INTERACTIONS_def)
  have "floor_times r (length TOKEN_INTERACTIONS) < length TOKEN_INTERACTIONS"
    by (rule floor_times_less) (simp add: TOKEN_INTERACTIONS_def)
  then have m: "TOKEN_INTERACTIONS ! floor_times r (length TOKEN_INTERACTIONS) \<in> set TOKEN_INTERACTIONS"
    by (rule nth_mem)
  have p0: "performTokenInteraction_p0 E ws w tokenData action t
      = (Inl (Error (''Unknown action: '' @ action)), t)"
    using assms(1) a by (simp add: performTokenInteraction_p0_def eff_defs Let_def)
  have js: "performTokenInteraction E ws w tokenData action t = (Inr Undefined, t)"
    using assms(1) a by (simp add: performTokenInteraction_def eff_defs)
  from p0 js m show ?thesis by (simp add: interactionsOf_def)
qed

theorem unknown_action_outcomes_witness:
  "tokenAccounts tokenHolder (address (TokenData ''mintA'' ''ata-pk-a''))
     = Some \<lparr> mint = ''mintA'', account = ''ata-pk-a'' \<rparr> \<and>
   ''stake'' \<notin> set TOKEN_INTERACTIONS \<and>
   performTokenInteraction_p0 demoEnv (wallets demoDeployer) tokenHolder
       (TokenData ''mintA'' ''ata-pk-a'') ''stake'' []
     = (Inl (Error ''Unknown action: stake''), []) \<and>
   performTokenInteraction demoEnv (wallets demoDeployer) tokenHolder
       (TokenData ''mintA'' ''ata-pk-a'') ''stake'' []
     = (Inr Undefined, []) \<and>
   TOKEN_INTERACTIONS ! floor_times double_0_7 (length TOKEN_INTERACTIONS) \<in> set TOKEN_INTERACTIONS"
proof -
  have h: "tokenAccounts tokenHolder (address (TokenData ''mintA'' ''ata-pk-a''))
      = Some \<lparr> mint = ''mintA'', account = ''ata-pk-a'' \<rparr>"
    by (simp add: tokenHolder_def demoWallet_def)
  have a: "''stake'' \<notin> set TOKEN_INTERACTIONS"
    by (simp add: TOKEN_INTERACTIONS_def)
  from unknown_action_outcomes [OF h a, of demoEnv "wallets demoDeployer" "[]" double_0_7] h a
  show ?thesis by simp
qed

theorem deploy_js_unknown_action_returns:
  "performTokenInteraction demoEnv (wallets demoDeployer) tokenHolder
       (TokenData ''mintA'' ''ata-pk-a'') ''stake'' []
     = (Inr Undefined, [])"
  by (simp add: performTokenInteraction_def tokenHolder_def demoWallet_def eff_defs)

text \<open>
  Claim C4 fails in \<open>deploy.js\<close>. The third action the orchestrator draws in an NFT
  run is \<open>update\<close> (here with \<open>Math.random()\<close> at 0.7), and \<open>updateMetadata\<close> is
  never drawn; \<open>performNFTInteraction\<close> has no case \<open>update\<close>, so it returns
  \<open>undefined\<close> without calling the chain, and the orchestrator records the
  iteration as an interaction whose result is \<open>undefined\<close>.
\<close>

theorem nft_update_is_not_handled:
  "NFT_INTERACTIONS ! floor_times double_0_7 (length NFT_INTERACTIONS) = ''update'' \<and>
   ''updateMetadata'' \<notin> set NFT_INTERACTIONS \<and>
   performNFTInteraction E ws nftHolder (NftData ''nftA'' ''metaA'') ''update'' t = (Inr Undefined, t) \<and>
   newInteractions (demoDeployer\<lparr>wallets := [nftHolder]\<rparr>)
      (interactionStep demoEnv ''2'' nftHolder (NftData ''nftA'' ''metaA'') (Finite 3)
        (demoDeployer\<lparr>wallets := [nftHolder]\<rparr>))
     = [Interaction 1700000000004 1 ''NFT'' ''update'' Undefined]"
proof (intro conjI)
  show "NFT_INTERACTIONS ! floor_times double_0_7 (length NFT_INTERACTIONS) = ''update''"
    by (simp add: NFT_INTERACTIONS_def floor_times_0_7_Suc)
  show "''updateMetadata'' \<notin> set NFT_INTERACTIONS"
    by (simp add: NFT_INTERACTIONS_def)
  show "performNFTInteraction E ws nftHolder (NftData ''nftA'' ''metaA'') ''update'' t = (Inr Undefined, t)"
    by (simp add: performNFTInteraction_def nftHolder_def demoWallet_def eff_defs)
  show "newInteractions (demoDeployer\<lparr>wallets := [nftHolder]\<rparr>)
      (interactionStep demoEnv ''2'' nftHolder (NftData ''nftA'' ''metaA'') (Finite 3)
        (demoDeployer\<lparr>wallets := [nftHolder]\<rparr>))
     = [Interaction 1700000000004 1 ''NFT'' ''update'' Undefined]"
    by (simp add: interactionStep_def performInteraction_def performNFTInteraction_def
        interactionsOf_def contractType_def NFT_INTERACTIONS_def TOKEN_INTERACTIONS_def
        floor_times_0_7_Suc draw_def clock_def log_def eff_defs newInteractions_def
        demoDeployer_def new_SonicDeployer_def initial_settings_def demoEnv_def nftHolder_def
        demoWallet_def Let_def)
qed

subsection \<open>The interaction executor of \<open>part_000\<close>\<close>

text \<open>
  What the claim C2 says does hold for \<open>performTokenInteraction\<close> of \<open>part_000\<close>,
  for a wallet that holds the token. The amounts are in range whatever is drawn,
  rounding of the product included; the wallet chosen by
  \<open>Math.floor(r * length)\<close> is one of the list, the first one for \<open>r = 0\<close>, which may
  be the sender; \<open>mint\<close> and \<open>burn\<close> draw, submit one transaction and return their
  string when it is confirmed, or throw the wrapped error when it is not;
  \<open>transfer\<close> returns its string with the chosen wallet's index, or throws a
  wrapped error.
\<close>

lemma amount_in_range: "0 < n \<Longrightarrow> 1 \<le> floor_times r n + 1 \<and> floor_times r n + 1 \<le> n"
  using floor_times_less [of n r] by simp

lemma drawn_wallet_in_list: "randomWalletOf ws r = Some w \<Longrightarrow> w \<in> set ws"
  by (auto simp: randomWalletOf_def split: if_splits)

lemma some_wallet_is_drawn: "ws \<noteq> [] \<Longrightarrow> randomWalletOf ws r \<noteq> None"
  using floor_times_less [of "length ws" r] by (simp add: randomWalletOf_def)

lemma first_wallet_can_be_drawn: "ws \<noteq> [] \<Longrightarrow> randomWalletOf ws (dyadic 0 0) = Some (ws ! 0)"
proof -
  assume "ws \<noteq> []"
  have "floor_times (dyadic 0 0) (length ws) = round53 (0 * length ws) div 2 ^ 0"
    by (rule floor_times_dyadic) simp_all
  then have "floor_times (dyadic 0 0) (length ws) = 0" by (simp add: round53_def)
  with \<open>ws \<noteq> []\<close> show ?thesis by (simp add: randomWalletOf_def)
qed

lemma mint_p0:
  assumes "tokenAccounts w (address tokenData) = Some info"
  shows "performTokenInteraction_p0 E ws w tokenData ''mint'' t =
     (case sendAndConfirmTransaction E (length t + 1)
             [MintTo (mint info) (account info) (publicKey w)
                (floor_times (mathRandom E (length t)) 1000 + 1)]
             [kp_publicKey (keypair w)] of
        Inr sig \<Rightarrow> Inr (''Minted '' @ show_nat (floor_times (mathRandom E (length t)) 1000 + 1) @ '' tokens'')
      | Inl e \<Rightarrow> Inl (Error (''Mint failed: '' @ message e)),
      t @ [MathRandom,
           Chain (SendAndConfirmTransaction
             [MintTo (mint info) (account info) (publicKey w)
                (floor_times (mathRandom E (length t)) 1000 + 1)]
             [kp_publicKey (keypair w)])])"
  using assms
  by (simp add: performTokenInteraction_p0_def call_random_def call_sendAndConfirmTransaction_def
      eff_defs Let_def split: sum.splits)

lemma burn_p0:
  assumes "tokenAccounts w (address tokenData) = Some info"
  shows "performTokenInteraction_p0 E ws w tokenData ''burn'' t =
     (case sendAndConfirmTransaction E (length t + 1)
             [Burn (account info) (mint info) (publicKey w)
                (floor_times (mathRandom E (length t)) 50 + 1)]
             [kp_publicKey (keypair w)] of
        Inr sig \<Rightarrow> Inr (''Burned '' @ show_nat (floor_times (mathRandom E (length t)) 50 + 1) @ '' tokens'')
      | Inl e \<Rightarrow> Inl (Error (''Burn failed: '' @ message e)),
      t @ [MathRandom,
           Chain (SendAndConfirmTransaction
             [Burn (account info) (mint info) (publicKey w)
                (floor_times (mathRandom E (length t)) 50 + 1)]
             [kp_publicKey (keypair w)])])"
  using assms
  by (simp add: performTokenInteraction_p0_def call_random_def call_sendAndConfirmTransaction_def
      eff_defs Let_def split: sum.splits)

lemma transfer_p0:
  assumes "tokenAccounts w (address tokenData) = Some info"
  shows "case fst (performTokenInteraction_p0 E ws w tokenData ''transfer'' t) of
      Inr s \<Rightarrow>
        randomWalletOf ws (mathRandom E (length t + 1)) \<noteq> None \<and>
        s = ''Transferred '' @ show_nat (floor_times (mathRandom E (length t)) 100 + 1)
            @ '' tokens to wallet #''
            @ show_nat (index (the (randomWalletOf ws (mathRandom E (length t + 1)))))
    | Inl e \<Rightarrow> (\<exists>m. e = Error (''Transfer failed: '' @ m))"
  using assms
  by (auto simp: performTokenInteraction_p0_def call_random_def call_sendAndConfirmTransaction_def
      call_getAssociatedTokenAddress_def call_getAccount_def
      eff_defs Let_def split: sum.splits option.splits prod.splits)

theorem performTokenInteraction_p0_outcomes:
  assumes "tokenAccounts w (address tokenData) = Some info"
  shows
   "(1 \<le> floor_times r 1000 + 1 \<and> floor_times r 1000 + 1 \<le> 1000) \<and>
    (1 \<le> floor_times r 100 + 1 \<and> floor_times r 100 + 1 \<le> 100) \<and>
    (1 \<le> floor_times r 50 + 1 \<and> floor_times r 50 + 1 \<le> 50) \<and>
    (case fst (performTokenInteraction_p0 E ws w tokenData ''mint'' t) of
       Inr s \<Rightarrow> s = ''Minted '' @ show_nat (floor_times (mathRandom E (length t)) 1000 + 1) @ '' tokens''
     | Inl e \<Rightarrow> (\<exists>m. e = Error (''Mint failed: '' @ m))) \<and>
    (case fst (performTokenInteraction_p0 E ws w tokenData ''transfer'' t) of
       Inr s \<Rightarrow>
         randomWalletOf ws (mathRandom E (length t + 1)) \<noteq> None \<and>
         s = ''Transferred '' @ show_nat (floor_times (mathRandom E (length t)) 100 + 1)
             @ '' tokens to wallet #''
             @ show_nat (index (the (randomWalletOf ws (mathRandom E (length t + 1)))))
     | Inl e \<Rightarrow> (\<exists>m. e = Error (''Transfer failed: '' @ m))) \<and>
    (case fst (performTokenInteraction_p0 E ws w tokenData ''burn'' t) of
       Inr s \<Rightarrow> s = ''Burned '' @ show_nat (floor_times (mathRandom E (length t)) 50 + 1) @ '' tokens''
     | Inl e \<Rightarrow> (\<exists>m. e = Error (''Burn failed: '' @ m)))"
  using amount_in_range [of 1000 r] amount_in_range [of 100 r] amount_in_range [of 50 r]
    transfer_p0 [OF assms, where E = E and ws = ws and t = t]
  by (simp add: mint_p0 [OF assms] burn_p0 [OF assms] split: sum.splits)

lemma show_nat_71: "show_nat 71 = ''71''"
  by (simp add: show_nat.simps digit_char_def)

lemma demo_transfer_p0:
  "fst (performTokenInteraction_p0 demoEnv (wallets demoDeployer) tokenHolder
         (TokenData ''mintA'' ''ata-pk-a'') ''transfer'' [])
     = Inr ''Transferred 71 tokens to wallet #3''"
  by (simp add: performTokenInteraction_p0_def call_defs randomWalletOf_def floor_times_0_7
      floor_times_0_7_Suc eff_defs Let_def demoEnv_def demoDeployer_def demoWallet_def
      tokenHolder_def new_SonicDeployer_def show_nat.simps digit_char_def)

subsection \<open>The delay between interactions\<close>

text \<open>
  Claim C6 fails in both programs. With two interactions set one minute apart, a
  run of \<open>part_000\<close> whose first interaction is rejected by the chain goes from the
  first attempt straight to the second, with no delay between them; when both
  interactions succeed the delay of 60000 ms is there. In \<open>deploy.js\<close> every token
  interaction throws, so a token run never waits. The lemmas
  \<open>interactionStep_effects\<close> and \<open>interactionStep_p0_effects\<close> above say it for
  every iteration: a delay follows an attempt only when the attempt appended its
  interaction and was not the last.
\<close>

theorem no_delay_after_failed_attempt:
  "map_option (\<lambda>d'. filter isPacing (newEvents pacedDeployer d'))
      (interactionLoop_p0 rejectingEnv tokenHolder (TokenData ''mintA'' ''ata-pk-a'') (Finite 1) pacedDeployer)
     = Some [Perform 1 ''mintA'' ''burn'', Perform 1 ''mintA'' ''burn''] \<and>
   map_option (\<lambda>d'. filter isPacing (newEvents pacedDeployer d'))
      (interactionLoop_p0 demoEnv tokenHolder (TokenData ''mintA'' ''ata-pk-a'') (Finite 1) pacedDeployer)
     = Some [Perform 1 ''mintA'' ''burn'', SetTimeout (Finite 60000), Perform 1 ''mintA'' ''burn''] \<and>
   map_option (\<lambda>d'. filter isPacing (newEvents pacedDeployer d'))
      (interactionLoop demoEnv ''1'' tokenHolder (TokenData ''mintA'' ''ata-pk-a'') (Finite 1) pacedDeployer)
     = Some [Perform 1 ''mintA'' ''burn'', Perform 1 ''mintA'' ''burn'']"
proof (intro conjI)
  have n: "toNumber 2 = Finite 2" "toNumber 3 = Finite 3" "toNumber 60 = Finite 60"
    "toNumber 60000 = Finite 60000"
    by (simp_all add: toNumber_exact)
  show "map_option (\<lambda>d'. filter isPacing (newEvents pacedDeployer d'))
      (interactionLoop_p0 rejectingEnv tokenHolder (TokenData ''mintA'' ''ata-pk-a'') (Finite 1) pacedDeployer)
     = Some [Perform 1 ''mintA'' ''burn'', Perform 1 ''mintA'' ''burn'']"
    by (simp add: interactionLoop_p0.simps interactionStep_p0_frame interactionStep_p0_def
        performTokenInteraction_p0_def call_random_def call_sendAndConfirmTransaction_def
        TOKEN_INTERACTIONS_def floor_times_0_7 floor_times_0_7_Suc draw_def clock_def log_def
        eff_defs number_le_def n
        newEvents_def pacedDeployer_def new_SonicDeployer_def rejectingEnv_def demoEnv_def
        tokenHolder_def demoWallet_def Let_def)
  show "map_option (\<lambda>d'. filter isPacing (newEvents pacedDeployer d'))
      (interactionLoop_p0 demoEnv tokenHolder (TokenData ''mintA'' ''ata-pk-a'') (Finite 1) pacedDeployer)
     = Some [Perform 1 ''mintA'' ''burn'', SetTimeout (Finite 60000), Perform 1 ''mintA'' ''burn'']"
    by (simp add: interactionLoop_p0.simps interactionStep_p0_frame interactionStep_p0_def
        performTokenInteraction_p0_def call_random_def call_sendAndConfirmTransaction_def
        TOKEN_INTERACTIONS_def floor_times_0_7 floor_times_0_7_Suc draw_def clock_def log_def
        eff_defs number_le_def n
        newEvents_def pacedDeployer_def new_SonicDeployer_def demoEnv_def
        tokenHolder_def demoWallet_def Let_def)
  show "map_option (\<lambda>d'. filter isPacing (newEvents pacedDeployer d'))
      (interactionLoop demoEnv ''1'' tokenHolder (TokenData ''mintA'' ''ata-pk-a'') (Finite 1) pacedDeployer)
     = Some [Perform 1 ''mintA'' ''burn'', Perform 1 ''mintA'' ''burn'']"
    by (simp add: interactionLoop.simps interactionStep_frame interactionStep_def
        performInteraction_def performTokenInteraction_def call_random_def interactionsOf_def
        TOKEN_INTERACTIONS_def floor_times_0_7 floor_times_0_7_Suc draw_def clock_def log_def
        eff_defs number_le_def n
        newEvents_def pacedDeployer_def new_SonicDeployer_def demoEnv_def
        tokenHolder_def demoWallet_def Let_def)
qed

subsection \<open>A wallet whose deployment fails\<close>









subsection \<open>Loading the wallets\<close>

lemma mapKeys_wallets:
  "map keypair (notNull (fst (mapKeys E i keys t))) = notNull (map (decodeKey E) keys) \<and>
   map index (notNull (fst (mapKeys E i keys t)))
     = map (\<lambda>p. fst p + 1) (filter (\<lambda>p. decodeKey E (snd p) \<noteq> None) (enumerate i keys)) \<and>
   snd (mapKeys E i keys t)
     = t @ map (\<lambda>p. Console (''Error processing key '' @ show_nat (fst p + 1)))
             (filter (\<lambda>p. decodeKey E (snd p) = None) (enumerate i keys)) \<and>
   (\<forall>w \<in> set (notNull (fst (mapKeys E i keys t))).
      publicKey w = kp_publicKey (keypair w) \<and> tokenAccounts w = Map.empty \<and>
      nftAccounts w = Map.empty)"
proof (induction keys arbitrary: i t)
  case Nil
  show ?case by simp
next
  case (Cons key keys)
  show ?case
  proof (cases "decodeKey E key")
    case None
    obtain ws t' where m: "mapKeys E (i + 1) keys
        (t @ [Console (''Error processing key '' @ show_nat (i + 1))]) = (ws, t')"
      by force
    with Cons [of "i + 1" "t @ [Console (''Error processing key '' @ show_nat (i + 1))]"] None
    show ?thesis by simp
  next
    case (Some kp)
    obtain ws t' where m: "mapKeys E (i + 1) keys t = (ws, t')" by force
    with Cons [of "i + 1" t] Some show ?thesis by simp
  qed
qed

lemma notNull_length: "length (notNull xs) = length (filter (\<lambda>x. x \<noteq> None) xs)"
  by (induction xs rule: notNull.induct) simp_all

lemma enumerate_indices_increase:
  "sorted_wrt (<) (map (\<lambda>p. fst p + 1) (filter P (enumerate i keys))) \<and>
   (\<forall>x \<in> set (map (\<lambda>p. fst p + 1) (filter P (enumerate i keys))). i < x \<and> x \<le> i + length keys)"
proof (induction keys arbitrary: i)
  case Nil
  show ?case by simp
next
  case (Cons key keys)
  define L where "L = map (\<lambda>p. fst p + 1) (filter P (enumerate (Suc i) keys))"
  from Cons [of "Suc i"] have s: "sorted_wrt (<) L"
    and b: "\<forall>x \<in> set L. Suc i < x \<and> x \<le> Suc i + length keys"
    unfolding L_def by blast+
  have "map (\<lambda>p. fst p + 1) (filter P (enumerate i (key # keys)))
      = (if P (i, key) then (i + 1) # L else L)"
    by (simp add: L_def)
  moreover have "sorted_wrt (<) ((i + 1) # L)"
    using s b by auto
  moreover have "\<forall>x \<in> set ((i + 1) # L). i < x \<and> x \<le> i + length (key # keys)"
    using b by auto
  moreover have "\<forall>x \<in> set L. i < x \<and> x \<le> i + length (key # keys)"
    using b by auto
  ultimately show ?case using s by presburger
qed

lemma privateKeys_not_blank: "key \<in> set (privateKeys content) \<Longrightarrow> key \<noteq> [] \<and> (\<exists>line \<in> set (split_lines content). key = trim line)"
  by (auto simp: privateKeys_def)

lemma init_wallets:
  assumes "readFileSync E (length (trace d) + 1) PRIVATE_KEYS_FILE = Inr content"
  shows "wallets (snd (init E d)) = notNull (fst (mapKeys E 0 (privateKeys content) (trace d @ [ClearScreen, ReadFile PRIVATE_KEYS_FILE]))) \<and>
         fst (init E d) = (wallets (snd (init E d)) \<noteq> [])"
  using assms
  by (auto simp: init_def run_def ask_def Let_def split: prod.splits)

text \<open>
  Claim C8, as the code has it. For a key file that can be read, \<open>init\<close> drops the
  blank lines, makes one wallet for each remaining line whose key decodes, in file
  order, and logs and skips each line whose key does not decode, so the number of
  wallets is the number of valid lines. A wallet's index is the 1-based position of
  its line among the non-blank lines, malformed lines counted: the indices increase
  strictly in file order, and a malformed line leaves a gap in them. \<open>init\<close>
  succeeds exactly when some wallet was loaded.
\<close>

theorem init_loads_valid_lines:
  assumes "readFileSync E (length (trace d) + 1) PRIVATE_KEYS_FILE = Inr content"
  shows
   "privateKeys content = filter (\<lambda>key. key \<noteq> []) (map trim (split_lines content)) \<and>
    map keypair (wallets (snd (init E d))) = notNull (map (decodeKey E) (privateKeys content)) \<and>
    length (wallets (snd (init E d)))
      = length (filter (\<lambda>key. decodeKey E key \<noteq> None) (privateKeys content)) \<and>
    map index (wallets (snd (init E d)))
      = map (\<lambda>p. fst p + 1)
          (filter (\<lambda>p. decodeKey E (snd p) \<noteq> None) (enumerate 0 (privateKeys content))) \<and>
    sorted_wrt (<) (map index (wallets (snd (init E d)))) \<and>
    newEvents d (snd (init E d))
      = [ClearScreen, ReadFile PRIVATE_KEYS_FILE]
        @ map (\<lambda>p. Console (''Error processing key '' @ show_nat (fst p + 1)))
            (filter (\<lambda>p. decodeKey E (snd p) = None) (enumerate 0 (privateKeys content)))
        @ [Console (if wallets (snd (init E d)) = [] then ''Error: No valid wallets found''
                    else ''Loaded '' @ show_nat (length (wallets (snd (init E d))))
                         @ '' wallets successfully'')] \<and>
    fst (init E d) = (wallets (snd (init E d)) \<noteq> [])"
proof -
  define t0 where "t0 = trace d @ [ClearScreen, ReadFile PRIVATE_KEYS_FILE]"
  define keys where "keys = privateKeys content"
  obtain made t2 where mk: "mapKeys E 0 keys t0 = (made, t2)" by force
  note mw = mapKeys_wallets [of E 0 keys t0, unfolded mk fst_conv snd_conv]
  have w: "wallets (snd (init E d)) = notNull made"
    and ok: "fst (init E d) = (wallets (snd (init E d)) \<noteq> [])"
    using init_wallets [OF assms] mk by (simp_all add: t0_def keys_def)
  have tr: "trace (snd (init E d)) = t2 @
      [Console (if notNull made = [] then ''Error: No valid wallets found''
                else ''Loaded '' @ show_nat (length (notNull made)) @ '' wallets successfully'')]"
    using assms mk
    by (simp add: init_def run_def ask_def Let_def t0_def keys_def)
  have ev: "newEvents d (snd (init E d))
      = [ClearScreen, ReadFile PRIVATE_KEYS_FILE]
        @ map (\<lambda>p. Console (''Error processing key '' @ show_nat (fst p + 1)))
            (filter (\<lambda>p. decodeKey E (snd p) = None) (enumerate 0 keys))
        @ [Console (if notNull made = [] then ''Error: No valid wallets found''
                    else ''Loaded '' @ show_nat (length (notNull made)) @ '' wallets successfully'')]"
    using tr mw by (simp add: newEvents_def t0_def)
  have len: "length (notNull made) = length (filter (\<lambda>key. decodeKey E key \<noteq> None) keys)"
  proof -
    have "length (notNull made) = length (map keypair (notNull made))" by simp
    also have "\<dots> = length (notNull (map (decodeKey E) keys))" using mw by simp
    also have "\<dots> = length (filter (\<lambda>key. decodeKey E key \<noteq> None) keys)"
      by (simp add: notNull_length filter_map comp_def)
    finally show ?thesis .
  qed
  have srt: "sorted_wrt (<) (map index (notNull made))"
    using mw enumerate_indices_increase [of "\<lambda>p. decodeKey E (snd p) \<noteq> None" 0 keys] by simp
  have pk: "privateKeys content = filter (\<lambda>key. key \<noteq> []) (map trim (split_lines content))"
    by (simp add: privateKeys_def)
  show ?thesis
    using pk w ok ev len srt mw unfolding keys_def by simp
qed

lemma demo_privateKeys:
  "privateKeys (''goodA'' @ [CHR 0x0A, CHR 0x0A] @ ''bad'' @ [CHR 0x0A] @ '' goodB'' @ [CHR 0x0A])
     = [''goodA'', ''bad'', ''goodB'']"
  by (simp add: privateKeys_def trim_def is_space_def)

theorem init_loads_valid_lines_witness:
  "readFileSync demoEnv (length (trace new_SonicDeployer) + 1) PRIVATE_KEYS_FILE
     = Inr (''goodA'' @ [CHR 0x0A, CHR 0x0A] @ ''bad'' @ [CHR 0x0A] @ '' goodB'' @ [CHR 0x0A]) \<and>
   map keypair (wallets (snd (init demoEnv new_SonicDeployer)))
     = notNull (map (decodeKey demoEnv) [''goodA'', ''bad'', ''goodB'']) \<and>
   length (wallets (snd (init demoEnv new_SonicDeployer)))
     = length (filter (\<lambda>key. decodeKey demoEnv key \<noteq> None) [''goodA'', ''bad'', ''goodB'']) \<and>
   map index (wallets (snd (init demoEnv new_SonicDeployer)))
     = map (\<lambda>p. fst p + 1)
         (filter (\<lambda>p. decodeKey demoEnv (snd p) \<noteq> None)
            (enumerate 0 [''goodA'', ''bad'', ''goodB''])) \<and>
   sorted_wrt (<) (map index (wallets (snd (init demoEnv new_SonicDeployer)))) \<and>
   fst (init demoEnv new_SonicDeployer) = (wallets (snd (init demoEnv new_SonicDeployer)) \<noteq> [])"
proof -
  have h: "readFileSync demoEnv (length (trace new_SonicDeployer) + 1) PRIVATE_KEYS_FILE
     = Inr (''goodA'' @ [CHR 0x0A, CHR 0x0A] @ ''bad'' @ [CHR 0x0A] @ '' goodB'' @ [CHR 0x0A])"
    by (simp add: demoEnv_def)
  note t = init_loads_valid_lines [OF h, unfolded demo_privateKeys]
  from t h show ?thesis by blast
qed

lemma malformedFirst_privateKeys:
  "privateKeys (''bad'' @ [CHR 0x0A] @ ''goodA'') = [''bad'', ''goodA'']"
  by (simp add: privateKeys_def trim_def is_space_def)

theorem init_indices_counterexample:
  "length (wallets (snd (init demoEnv new_SonicDeployer))) = 2 \<and>
   map index (wallets (snd (init demoEnv new_SonicDeployer))) = [1, 3] \<and>
   length (wallets (snd (init malformedFirstEnv new_SonicDeployer))) = 1 \<and>
   map index (wallets (snd (init malformedFirstEnv new_SonicDeployer))) = [2]"
  by (simp add: init_def run_def ask_def Let_def demoEnv_def malformedFirstEnv_def
      new_SonicDeployer_def log_def PRIVATE_KEYS_FILE_def demo_privateKeys [simplified]
      malformedFirst_privateKeys [simplified])

subsection \<open>Report files: their names and their listing\<close>

lemma show_nat_inject: "show_nat a = show_nat b \<longleftrightarrow> a = b"
  by (metis parse_radix_show_nat option.inject)

lemma reportName_inject: "reportName a = reportName b \<longleftrightarrow> a = b"
  by (simp add: reportName_def show_nat_inject)

lemma length_show_nat_one: "length (show_nat n) = Suc 0 \<longleftrightarrow> n < 10"
proof (cases "n < 10")
  case True
  then show ?thesis by (subst show_nat.simps) simp
next
  case False
  then show ?thesis
    using show_nat_not_Nil [of "n div 10"]
    by (subst show_nat.simps) (simp add: Suc_length_conv)
qed

lemma digit_char_less: "a < 10 \<Longrightarrow> b < 10 \<Longrightarrow> digit_char a < digit_char b \<longleftrightarrow> a < b"
  by (erule digit_cases; erule digit_cases) (simp_all add: digit_char_def less_char_def)

lemma snoc_less_snoc:
  "length xs = length ys \<Longrightarrow> xs @ [x] < ys @ [y] \<longleftrightarrow> xs < ys \<or> xs = ys \<and> x < y"
  for x y :: "'a::linorder"
  by (induction xs ys rule: list_induct2) auto

lemma append_less_append:
  "length xs = length ys \<Longrightarrow> xs @ s < ys @ s \<longleftrightarrow> xs < ys"
  for s :: "'a::linorder list"
  by (induction xs ys rule: list_induct2) auto

lemma div_mod_less_iff:
  fixes a b :: nat
  shows "a div 10 < b div 10 \<or> a div 10 = b div 10 \<and> a mod 10 < b mod 10 \<longleftrightarrow> a < b"
proof -
  define qa ra qb rb where "qa = a div 10" and "ra = a mod 10" and "qb = b div 10" and "rb = b mod 10"
  have a: "a = 10 * qa + ra" and b: "b = 10 * qb + rb" and r: "ra < 10" "rb < 10"
    by (simp_all add: qa_def ra_def qb_def rb_def)
  have "qa < qb \<or> qa = qb \<and> ra < rb \<longleftrightarrow> 10 * qa + ra < 10 * qb + rb"
    using r by auto
  then show ?thesis
    unfolding a b unfolding qa_def ra_def qb_def rb_def by simp
qed

lemma show_nat_small: "n < 10 \<Longrightarrow> show_nat n = [digit_char n]"
  by (subst show_nat.simps) simp

lemma show_nat_large: "\<not> n < 10 \<Longrightarrow> show_nat n = show_nat (n div 10) @ [digit_char (n mod 10)]"
  by (subst show_nat.simps) simp

lemma show_nat_less:
  "length (show_nat a) = length (show_nat b) \<Longrightarrow> show_nat a < show_nat b \<longleftrightarrow> a < b"
proof (induction a arbitrary: b rule: show_nat.induct)
  case (1 a)
  show ?case
  proof (cases "a < 10")
    case True
    then have "length (show_nat a) = Suc 0" by (simp add: length_show_nat_one)
    with "1.prems" have "length (show_nat b) = Suc 0" by simp
    then have b: "b < 10" using length_show_nat_one [of b] by blast
    show ?thesis
      using True b by (simp add: show_nat_small digit_char_less)
  next
    case False
    then have "length (show_nat a) \<noteq> Suc 0" by (simp add: length_show_nat_one)
    with "1.prems" have "length (show_nat b) \<noteq> Suc 0" by simp
    then have b: "\<not> b < 10" using length_show_nat_one [of b] by blast
    note sa = show_nat_large [OF False] and sb = show_nat_large [OF b]
    from "1.prems" have len: "length (show_nat (a div 10)) = length (show_nat (b div 10))"
      unfolding sa sb by simp
    note ih = "1.IH" [OF False len]
    have ma: "a mod 10 < 10" and mb: "b mod 10 < 10" by simp_all
    have "show_nat a < show_nat b \<longleftrightarrow>
        show_nat (a div 10) < show_nat (b div 10) \<or>
        show_nat (a div 10) = show_nat (b div 10) \<and> digit_char (a mod 10) < digit_char (b mod 10)"
      unfolding sa sb using len by (rule snoc_less_snoc)
    also have "\<dots> \<longleftrightarrow> a div 10 < b div 10 \<or> a div 10 = b div 10 \<and> a mod 10 < b mod 10"
      unfolding ih show_nat_inject digit_char_less [OF ma mb] ..
    also have "\<dots> \<longleftrightarrow> a < b"
      by (rule div_mod_less_iff)
    finally show ?thesis .
  qed
qed

lemma reportName_less:
  "length (show_nat a) = length (show_nat b) \<Longrightarrow> reportName a < reportName b \<longleftrightarrow> a < b"
  using append_less_append [of "show_nat a" "show_nat b" "''.txt''"]
  by (simp add: reportName_def show_nat_less)

lemma reportName_le:
  "length (show_nat a) = length (show_nat b) \<Longrightarrow> reportName a \<le> reportName b \<longleftrightarrow> a \<le> b"
  using reportName_less [of a b] reportName_inject [of a b] by (auto simp: le_less)

lemma startsWith_reportName: "startsWith (reportName t) ''sonic-report-''"
  by (simp add: startsWith_def reportName_def)

lemma sort_map_mono:
  assumes "\<And>x y. x \<in> set xs \<Longrightarrow> y \<in> set xs \<Longrightarrow> x \<le> y \<Longrightarrow> f x \<le> f y"
  shows "sort (map f xs) = map f (sort xs)"
proof (rule properties_for_sort)
  show "mset (map f (sort xs)) = mset (map f xs)" by simp
  have "sorted_wrt (\<lambda>x y. f x \<le> f y) (sort xs)"
    by (rule sorted_wrt_mono_rel [of "sort xs" "(\<le>)"]) (use assms in auto)
  then show "sorted (map f (sort xs))" by (simp add: sorted_map)
qed

lemma listReports_same_digits:
  assumes "\<forall>t \<in> set ts. length (show_nat t) = n"
  shows "listReports (map reportName ts) = map reportName (rev (sort ts))"
proof -
  have "filter (\<lambda>file. startsWith file ''sonic-report-'') (map reportName ts) = map reportName ts"
    by (simp add: filter_map comp_def startsWith_reportName)
  moreover have "sort (map reportName ts) = map reportName (sort ts)"
    by (rule sort_map_mono) (use assms reportName_le in auto)
  ultimately show ?thesis by (simp add: listReports_def rev_map)
qed

lemma listReports_set_sorted:
  "set (listReports files) = {f \<in> set files. startsWith f ''sonic-report-''} \<and>
   sorted (rev (listReports files))"
  by (auto simp: listReports_def)

lemma generateReport_files:
  "writtenFiles (newEvents d (snd (generateReport E d)))
     = [reportName (dateNow E (length (trace d) + 1))]"
  by (auto simp: generateReport_def clock_def run_def ask_def Let_def log_def newEvents_def
      writtenFiles_def split: prod.splits sum.splits)

lemma show_nat_13:
  "length (show_nat 1700000000000) = 13 \<and> length (show_nat 1700000000500) = 13 \<and>
   length (show_nat 1700000000200) = 13"
  by (simp add: show_nat.simps)

text \<open>
  Claim C9, as the code has it. \<open>generateReport\<close> writes one file, named
  \<open>sonic-report-\<close>, the decimal value of \<open>Date.now()\<close> in milliseconds,
  \<open>.txt\<close>; two generations get distinct names exactly when their clock readings
  differ. \<open>viewPreviousReports\<close> lists the directory entries whose names start with
  \<open>sonic-report-\<close>, in descending order of the names as strings; for report files
  whose timestamps have the same number of digits that is newest first.
\<close>

theorem report_names_and_listing:
  "writtenFiles (newEvents d (snd (generateReport E d)))
     = [reportName (dateNow E (length (trace d) + 1))] \<and>
   (reportName a = reportName b \<longleftrightarrow> a = b) \<and>
   set (listReports files) = {f \<in> set files. startsWith f ''sonic-report-''} \<and>
   sorted (rev (listReports files)) \<and>
   ((\<forall>t \<in> set ts. length (show_nat t) = n) \<longrightarrow>
      listReports (map reportName ts) = map reportName (rev (sort ts)))"
  using generateReport_files [of d E] reportName_inject [of a b] listReports_set_sorted [of files]
    listReports_same_digits [of ts n]
  by blast

theorem report_names_and_listing_witness:
  "length (show_nat 1700000000000) = 13 \<and> length (show_nat 1700000000500) = 13 \<and>
   length (show_nat 1700000000200) = 13 \<and>
   listReports (map reportName [1700000000000, 1700000000500, 1700000000200])
     = map reportName [1700000000500, 1700000000200, 1700000000000]"
proof -
  have h: "\<forall>t \<in> set [1700000000000, 1700000000500, 1700000000200 :: nat]. length (show_nat t) = 13"
    using show_nat_13 by simp
  have s: "rev (sort [1700000000000, 1700000000500, 1700000000200 :: nat])
      = [1700000000500, 1700000000200, 1700000000000]"
    by simp
  from report_names_and_listing [where ts = "[1700000000000, 1700000000500, 1700000000200]" and n = 13]
    h s show_nat_13
  show ?thesis by simp
qed

theorem report_names_counterexample:
  "writtenFiles (newEvents demoDeployer (reportPrompt frozenEnv [''r'', ''r'', ''m''] demoDeployer))
     = [''sonic-report-1700000000000.txt'', ''sonic-report-1700000000000.txt''] \<and>
   listReports [''sonic-report-999999999999.txt'', ''sonic-report-1000000000000.txt'']
     = [''sonic-report-999999999999.txt'', ''sonic-report-1000000000000.txt'']"
proof
  show "writtenFiles (newEvents demoDeployer (reportPrompt frozenEnv [''r'', ''r'', ''m''] demoDeployer))
     = [''sonic-report-1700000000000.txt'', ''sonic-report-1700000000000.txt'']"
    by (simp add: generateReport_def clock_def run_def ask_def Let_def log_def newEvents_def
        writtenFiles_def toLowerCase_def reportName_def show_nat.simps digit_char_def
        frozenEnv_def demoEnv_def demoDeployer_def new_SonicDeployer_def)
  show "listReports [''sonic-report-999999999999.txt'', ''sonic-report-1000000000000.txt'']
     = [''sonic-report-999999999999.txt'', ''sonic-report-1000000000000.txt'']"
    by (simp add: listReports_def startsWith_def less_eq_char_def less_char_def)
qed

end
